(* ===== verification/Prelude.thy ===== *)
theory Prelude
  imports Complex_Main
begin

text \<open>
  Shared vocabulary of the development: the JavaScript values the program computes with
  that have no direct HOL counterpart.
  \<^item> \<open>jsnum\<close>: a JS number that is either an integer or \<open>NaN\<close> (the scores and the high
    score of \<^verbatim>\<open>src/src/App.js\<close> are integers, but \<^verbatim>\<open>parseInt\<close> of a corrupted
    storage value is \<open>NaN\<close>, and every comparison with \<open>NaN\<close> is false);
  \<^item> \<open>js_rem\<close>: the remainder operator \<^verbatim>\<open>%\<close>, which truncates towards zero (HOL's
    \<open>mod\<close> floors);
  \<^item> \<open>js_int_to_string\<close>: \<^verbatim>\<open>Number.prototype.toString\<close> and template-literal
    interpolation \<^verbatim>\<open>`${n}`\<close> on integers (decimal, with a leading minus sign).
  It also declares the collection \<open>js_simps\<close> of rewrite rules the components share.
\<close>

named_theorems js_simps "rewrite rules for the JavaScript primitives of the model"

subsection \<open>Numbers\<close>

datatype jsnum = JInt int | NaN

text \<open>JS \<^verbatim>\<open>a > b\<close> on numbers: false as soon as one side is \<open>NaN\<close>.\<close>

fun js_gt :: "jsnum \<Rightarrow> jsnum \<Rightarrow> bool" where
  "js_gt (JInt a) (JInt b) = (b < a)"
| "js_gt _ _ = False"

text \<open>JS \<^verbatim>\<open>a % b\<close> for a non-zero divisor: the sign follows the dividend.\<close>

definition js_rem :: "int \<Rightarrow> int \<Rightarrow> int" where
  "js_rem a b = sgn a * (\<bar>a\<bar> mod \<bar>b\<bar>)"

subsection \<open>Decimal rendering of integers\<close>

definition digit_char :: "nat \<Rightarrow> char" where
  "digit_char d = ''0123456789'' ! d"

fun nat_digits :: "nat \<Rightarrow> string" where
  "nat_digits n =
     (if n < 10 then [digit_char n] else nat_digits (n div 10) @ [digit_char (n mod 10)])"

declare nat_digits.simps [simp del]

definition js_int_to_string :: "int \<Rightarrow> string" where
  "js_int_to_string i =
     (if i < 0 then CHR ''-'' # nat_digits (nat (- i)) else nat_digits (nat i))"

text \<open>Decimal digits read back: the value of a character that is a digit.\<close>

definition is_digit :: "char \<Rightarrow> bool" where
  "is_digit c \<longleftrightarrow> 48 \<le> (of_char c :: nat) \<and> (of_char c :: nat) < 58"

subsection \<open>Lemmas shared by the components\<close>

lemma js_rem_nonneg [js_simps]: "0 \<le> a \<Longrightarrow> js_rem a b = a mod \<bar>b\<bar>"
  by (cases "a = 0") (simp_all add: js_rem_def)

lemma js_rem_parity [js_simps]: "js_rem a 2 = 0 \<longleftrightarrow> even a"
  by (cases "a = 0") (auto simp: js_rem_def sgn_if even_iff_mod_2_eq_zero)

lemma js_gt_JInt [simp]: "js_gt (JInt a) b \<longleftrightarrow> (\<exists>c. b = JInt c \<and> c < a)"
  by (cases b) auto

lemma of_char_digit_char [simp]: "d < 10 \<Longrightarrow> (of_char (digit_char d) :: nat) = 48 + d"
proof -
  assume "d < 10"
  then have "d = 0 \<or> d = 1 \<or> d = 2 \<or> d = 3 \<or> d = 4 \<or> d = 5 \<or> d = 6 \<or> d = 7 \<or> d = 8 \<or> d = 9"
    by arith
  then show ?thesis by (auto simp: digit_char_def)
qed

lemma is_digit_digit_char [simp]: "d < 10 \<Longrightarrow> is_digit (digit_char d)"
  by (simp add: is_digit_def)

lemma nat_digits_all_digits: "\<forall>c \<in> set (nat_digits n). is_digit c"
proof (induction n rule: nat_digits.induct)
  case (1 n)
  then show ?case by (subst nat_digits.simps) auto
qed

lemma nat_digits_not_Nil [simp]: "nat_digits n \<noteq> []"
  by (subst nat_digits.simps) simp

lemma nat_digits_value:
  "foldl (\<lambda>acc c. 10 * acc + (of_char c - 48)) 0 (nat_digits n) = n"
proof (induction n rule: nat_digits.induct)
  case (1 n)
  show ?case
  proof (cases "n < 10")
    case True
    then show ?thesis by (subst nat_digits.simps) simp
  next
    case False
    with "1.IH" show ?thesis by (subst nat_digits.simps) simp
  qed
qed

end
