(* ===== verification/Coordinates.thy ===== *)
theory Coordinates
  imports Prelude
begin

text \<open>
  The coordinate and notation transform of \<^verbatim>\<open>src/src/App.js\<close>: the frozen \<^verbatim>\<open>SIDE\<close>
  object (lines 4--7), the class \<^verbatim>\<open>Coordinates\<close> and its method
  \<^verbatim>\<open>toChessBoardSquare\<close> (lines 75--92). The perspective argument is a JS string, so the
  model takes a \<open>string\<close>: \<open>side_name\<close> gives the two values the program passes, and
  any other string reaches the \<^verbatim>\<open>default\<close> branch, which returns the empty string.
  \<^verbatim>\<open>letters[i]\<close> outside \<open>0..7\<close> is \<^verbatim>\<open>undefined\<close>, which string concatenation
  renders as \<^verbatim>\<open>"undefined"\<close>.
  The lemmas give the label on every branch, the relation between the two perspectives,
  and a decoder \<open>parse_square\<close> (the reading a player does) that inverts the label on the
  board, so that the label names exactly one square per perspective.
\<close>

datatype side = WHITE | BLACK

definition side_name :: "side \<Rightarrow> string" where
  "side_name s = (case s of WHITE \<Rightarrow> ''WHITE'' | BLACK \<Rightarrow> ''BLACK'')"

text \<open>The fields \<^verbatim>\<open>x\<close> and \<^verbatim>\<open>y\<close> (a file index and a rank index counted from the top).\<close>

record coordinates =
  coord_x :: int
  coord_y :: int

definition on_board :: "coordinates \<Rightarrow> bool" where
  "on_board c \<longleftrightarrow> 0 \<le> coord_x c \<and> coord_x c < 8 \<and> 0 \<le> coord_y c \<and> coord_y c < 8"

definition file_chars :: string where
  "file_chars = ''ABCDEFGH''"

text \<open>\<^verbatim>\<open>letters[i]\<close> as it appears in a string concatenation.\<close>

definition js_letter :: "int \<Rightarrow> string" where
  "js_letter i = (if 0 \<le> i \<and> i < 8 then [file_chars ! nat i] else ''undefined'')"

definition toChessBoardSquare :: "coordinates \<Rightarrow> string \<Rightarrow> string" where
  "toChessBoardSquare c perspective =
     (if perspective = side_name WHITE
      then js_letter (coord_x c) @ js_int_to_string (8 - coord_y c)
      else if perspective = side_name BLACK
      then js_letter (7 - coord_x c) @ js_int_to_string (coord_y c + 1)
      else '''')"

text \<open>
  The reading of a label: file letter and rank digit back to a cell, from the given
  perspective. It is not part of the program; it states what the label means.
\<close>

fun parse_square :: "side \<Rightarrow> string \<Rightarrow> coordinates option" where
  "parse_square s [f, r] =
     (let i = int (of_char f) - 65; j = int (of_char r) - 49 in
      if 0 \<le> i \<and> i < 8 \<and> 0 \<le> j \<and> j < 8
      then Some (case s of
                   WHITE \<Rightarrow> \<lparr>coord_x = i, coord_y = 7 - j\<rparr>
                 | BLACK \<Rightarrow> \<lparr>coord_x = 7 - i, coord_y = j\<rparr>)
      else None)"
| "parse_square s _ = None"

subsection \<open>Characters of a label on the board\<close>

lemma of_char_file_chars [simp]: "i < 8 \<Longrightarrow> (of_char (file_chars ! i) :: nat) = 65 + i"
proof -
  assume "i < 8"
  then have "i = 0 \<or> i = 1 \<or> i = 2 \<or> i = 3 \<or> i = 4 \<or> i = 5 \<or> i = 6 \<or> i = 7"
    by arith
  then show ?thesis by (auto simp: file_chars_def)
qed

lemma js_letter_on_board [simp]: "0 \<le> i \<Longrightarrow> i < 8 \<Longrightarrow> js_letter i = [file_chars ! nat i]"
  by (simp add: js_letter_def)

lemma js_int_to_string_digit [simp]:
  "0 \<le> i \<Longrightarrow> i < 10 \<Longrightarrow> js_int_to_string i = [digit_char (nat i)]"
  by (simp add: js_int_to_string_def nat_digits.simps)

lemma side_name_distinct [simp]:
  "side_name WHITE \<noteq> side_name BLACK" "side_name BLACK \<noteq> side_name WHITE"
  by (simp_all add: side_name_def)

lemma side_name_inject [simp]: "side_name s = side_name t \<longleftrightarrow> s = t"
  by (cases s; cases t) (simp_all add: side_name_def)

lemmas board_label_simps = toChessBoardSquare_def on_board_def

lemma coordinates_eqI: "coord_x c = a \<Longrightarrow> coord_y c = b \<Longrightarrow> \<lparr>coord_x = a, coord_y = b\<rparr> = c"
  by auto

lemma parse_label_on_board:
  assumes "on_board c"
  shows "parse_square s (toChessBoardSquare c (side_name s)) = Some c"
proof (cases s)
  case WHITE
  with assms show ?thesis
    by (auto simp: board_label_simps Let_def intro: coordinates_eqI)
next
  case BLACK
  with assms show ?thesis
    by (auto simp: board_label_simps Let_def intro: coordinates_eqI)
qed

subsection \<open>Properties of the transform\<close>

text \<open>C4: from White's side the label is letter \<open>x\<close> and rank \<open>8 - y\<close>.\<close>

theorem toChessBoardSquare_white:
  assumes "on_board c"
  shows "toChessBoardSquare c (side_name WHITE) =
           [file_chars ! nat (coord_x c), digit_char (nat (8 - coord_y c))]"
  using assms by (simp add: board_label_simps)

lemma toChessBoardSquare_white_witness:
  "on_board \<lparr>coord_x = 2, coord_y = 5\<rparr> \<and>
   toChessBoardSquare \<lparr>coord_x = 2, coord_y = 5\<rparr> (side_name WHITE) =
     [file_chars ! nat 2, digit_char (nat (8 - 5))]"
proof -
  have h: "on_board \<lparr>coord_x = 2, coord_y = 5\<rparr>" by (simp add: on_board_def)
  show ?thesis using h toChessBoardSquare_white [OF h] by simp
qed

text \<open>C5: from Black's side the label is letter \<open>7 - x\<close> and rank \<open>y + 1\<close>.\<close>

theorem toChessBoardSquare_black:
  assumes "on_board c"
  shows "toChessBoardSquare c (side_name BLACK) =
           [file_chars ! nat (7 - coord_x c), digit_char (nat (coord_y c + 1))]"
  using assms by (simp add: board_label_simps)

lemma toChessBoardSquare_black_witness:
  "on_board \<lparr>coord_x = 2, coord_y = 5\<rparr> \<and>
   toChessBoardSquare \<lparr>coord_x = 2, coord_y = 5\<rparr> (side_name BLACK) =
     [file_chars ! nat (7 - 2), digit_char (nat (5 + 1))]"
proof -
  have h: "on_board \<lparr>coord_x = 2, coord_y = 5\<rparr>" by (simp add: on_board_def)
  show ?thesis using h toChessBoardSquare_black [OF h] by simp
qed

text \<open>
  C25: Black's label of a cell is White's label of the cell turned half a turn, for every
  integer cell, on the board or not.
\<close>

theorem toChessBoardSquare_black_is_rotated_white:
  "toChessBoardSquare c (side_name BLACK) =
   toChessBoardSquare \<lparr>coord_x = 7 - coord_x c, coord_y = 7 - coord_y c\<rparr> (side_name WHITE)"
  by (simp add: toChessBoardSquare_def add.commute)

text \<open>
  C15: on the board, reading the label back from the perspective it was written in gives
  the cell: the label names exactly one square per perspective.
\<close>

theorem parse_toChessBoardSquare:
  assumes "on_board c"
  shows "parse_square s (toChessBoardSquare c (side_name s)) = Some c"
  using assms by (rule parse_label_on_board)

lemma parse_toChessBoardSquare_witness:
  "on_board \<lparr>coord_x = 6, coord_y = 1\<rparr> \<and>
   parse_square BLACK (toChessBoardSquare \<lparr>coord_x = 6, coord_y = 1\<rparr> (side_name BLACK)) =
     Some \<lparr>coord_x = 6, coord_y = 1\<rparr>"
proof -
  have h: "on_board \<lparr>coord_x = 6, coord_y = 1\<rparr>" by (simp add: on_board_def)
  show ?thesis using h parse_toChessBoardSquare [OF h, of BLACK] by simp
qed

text \<open>
  C30: a perspective that is neither of the two \<^verbatim>\<open>SIDE\<close> values reaches the
  \<^verbatim>\<open>default\<close> branch and yields the empty label (no error is raised).
\<close>

theorem toChessBoardSquare_other_perspective:
  assumes "p \<notin> side_name ` UNIV"
  shows "toChessBoardSquare c p = []"
proof -
  have "p \<noteq> side_name WHITE" and "p \<noteq> side_name BLACK" using assms by auto
  then show ?thesis by (simp add: toChessBoardSquare_def)
qed

lemma toChessBoardSquare_other_perspective_witness:
  "''white'' \<notin> side_name ` UNIV \<and> toChessBoardSquare \<lparr>coord_x = 0, coord_y = 0\<rparr> ''white'' = []"
proof -
  have h: "''white'' \<notin> side_name ` UNIV"
  proof
    assume "''white'' \<in> side_name ` UNIV"
    then obtain s where "''white'' = side_name s" by auto
    then show False by (cases s) (simp_all add: side_name_def)
  qed
  show ?thesis using h toChessBoardSquare_other_perspective [OF h] by simp
qed

text \<open>
  Off the board the file letter is \<^verbatim>\<open>undefined\<close>, and the label starts with the
  word \<^verbatim>\<open>"undefined"\<close> instead of a file letter.
\<close>

theorem toChessBoardSquare_off_board_file:
  assumes "coord_x c < 0 \<or> 8 \<le> coord_x c"
  shows "toChessBoardSquare c (side_name WHITE) = ''undefined'' @ js_int_to_string (8 - coord_y c)"
  using assms by (auto simp: toChessBoardSquare_def js_letter_def)

lemma toChessBoardSquare_off_board_file_witness:
  "(coord_x \<lparr>coord_x = 8, coord_y = 0\<rparr> < 0 \<or> 8 \<le> coord_x \<lparr>coord_x = 8, coord_y = 0::int\<rparr>) \<and>
   toChessBoardSquare \<lparr>coord_x = 8, coord_y = 0\<rparr> (side_name WHITE) = ''undefined8''"
proof -
  have h: "coord_x \<lparr>coord_x = 8, coord_y = 0\<rparr> < 0 \<or> 8 \<le> coord_x \<lparr>coord_x = 8, coord_y = 0::int\<rparr>"
    by simp
  show ?thesis using h toChessBoardSquare_off_board_file [OF h] by (simp add: digit_char_def)
qed

end
