(* ===== verification/Targets.thy ===== *)
theory Targets
  imports Coordinates
begin

text \<open>
  The random target generator of \<^verbatim>\<open>src/src/App.js\<close>: \<^verbatim>\<open>getRandomInt\<close>,
  \<^verbatim>\<open>randomPiecesColor\<close> and \<^verbatim>\<open>randomCoordinates\<close> (lines 24--36), and the order in
  which \<^verbatim>\<open>GameScreen\<close> calls them when it builds a round (lines 112--113 and 120--121:
  the colour first, then the file, then the rank, as the object literal and the argument
  list are evaluated left to right).
  Each call of \<^verbatim>\<open>Math.random()\<close> is an explicit argument, a real number in \<open>[0, 1)\<close>
  (\<open>valid_draw\<close>). \<open>getRandomInt\<close> takes \<^verbatim>\<open>Math.random() * (max - min + 1)\<close> as an exact
  product; in binary floating point that product is exact only when the range has a
  power of two elements. The program's only call, \<^verbatim>\<open>getRandomInt(0, 7)\<close>, multiplies by
  \<open>8\<close>, so for it the real-number model of \<^verbatim>\<open>Math.floor(r * 8)\<close> is the program's
  value; for other ranges only the bounds are claimed, which rounding cannot break.
  The uniformity of a round is stated as the set of draws that produce a given result:
  an interval of width \<open>1/8\<close> for each coordinate, a half of \<open>[0, 1)\<close> for each side.
\<close>

type_synonym draw = real

definition valid_draw :: "draw \<Rightarrow> bool" where
  "valid_draw r \<longleftrightarrow> 0 \<le> r \<and> r < 1"

definition getRandomInt :: "real \<Rightarrow> real \<Rightarrow> draw \<Rightarrow> int" where
  "getRandomInt lo hi r =
     (let lo' = \<lceil>lo\<rceil>; hi' = \<lfloor>hi\<rfloor> in \<lfloor>r * of_int (hi' - lo' + 1)\<rfloor> + lo')"

definition randomPiecesColor :: "draw \<Rightarrow> side" where
  "randomPiecesColor r = (if r < 1 / 2 then WHITE else BLACK)"

definition randomCoordinates :: "draw \<Rightarrow> draw \<Rightarrow> coordinates" where
  "randomCoordinates rx ry = \<lparr>coord_x = getRandomInt 0 7 rx, coord_y = getRandomInt 0 7 ry\<rparr>"

text \<open>The three draws of one round, in the order the code makes them.\<close>

type_synonym draws = "draw \<times> draw \<times> draw"

definition valid_draws :: "draws \<Rightarrow> bool" where
  "valid_draws d \<longleftrightarrow> (case d of (rc, rx, ry) \<Rightarrow> valid_draw rc \<and> valid_draw rx \<and> valid_draw ry)"

definition random_round :: "draws \<Rightarrow> side \<times> coordinates" where
  "random_round d = (case d of (rc, rx, ry) \<Rightarrow> (randomPiecesColor rc, randomCoordinates rx ry))"

text \<open>The draws that give side \<open>s\<close>: the lower half for White, the upper half for Black.\<close>

definition side_draws :: "side \<Rightarrow> draw set" where
  "side_draws s = (case s of WHITE \<Rightarrow> {0..<1/2} | BLACK \<Rightarrow> {1/2..<1})"

text \<open>The draws that give the integer \<open>k\<close> out of \<open>n\<close> equally likely ones.\<close>

definition slot :: "int \<Rightarrow> int \<Rightarrow> draw set" where
  "slot n k = {of_int k / of_int n ..< (of_int k + 1) / of_int n}"

subsection \<open>The floor of a scaled draw\<close>

lemma floor_scaled_eq_iff:
  fixes r :: real
  assumes "0 < n"
  shows "\<lfloor>r * of_int n\<rfloor> = k \<longleftrightarrow> r \<in> slot n k"
proof -
  have "\<lfloor>r * of_int n\<rfloor> = k \<longleftrightarrow> of_int k \<le> r * of_int n \<and> r * of_int n < of_int k + 1"
    by (simp add: floor_eq_iff)
  also have "\<dots> \<longleftrightarrow> of_int k / of_int n \<le> r \<and> r < (of_int k + 1) / of_int n"
    using assms by (simp add: divide_le_eq less_divide_eq)
  finally show ?thesis by (simp add: slot_def)
qed

lemma floor_scaled_bounds:
  fixes r :: real
  assumes "valid_draw r" and "0 < n"
  shows "0 \<le> \<lfloor>r * of_int n\<rfloor> \<and> \<lfloor>r * of_int n\<rfloor> < n"
proof -
  have "0 \<le> r * of_int n" using assms by (simp add: valid_draw_def)
  moreover have "r * of_int n < of_int n" using assms by (simp add: valid_draw_def)
  ultimately show ?thesis by (simp add: floor_less_iff)
qed

lemma getRandomInt_0_7: "getRandomInt 0 7 r = \<lfloor>r * 8\<rfloor>"
  by (simp add: getRandomInt_def)

lemma randomCoordinates_fields [simp]:
  "coord_x (randomCoordinates rx ry) = \<lfloor>rx * 8\<rfloor>"
  "coord_y (randomCoordinates rx ry) = \<lfloor>ry * 8\<rfloor>"
  by (simp_all add: randomCoordinates_def getRandomInt_0_7)

lemma randomCoordinates_on_board_aux:
  "valid_draw rx \<Longrightarrow> valid_draw ry \<Longrightarrow> on_board (randomCoordinates rx ry)"
  using floor_scaled_bounds [of rx 8] floor_scaled_bounds [of ry 8]
  by (simp add: on_board_def)

subsection \<open>Properties of the generator\<close>

text \<open>
  C26: \<^verbatim>\<open>getRandomInt(min, max)\<close> lies between \<^verbatim>\<open>Math.ceil(min)\<close> and
  \<^verbatim>\<open>Math.floor(max)\<close>, both included, for every draw of \<^verbatim>\<open>Math.random\<close>.
\<close>

theorem getRandomInt_bounds:
  assumes "valid_draw r" and "\<lceil>lo\<rceil> \<le> \<lfloor>hi\<rfloor>"
  shows "\<lceil>lo\<rceil> \<le> getRandomInt lo hi r \<and> getRandomInt lo hi r \<le> \<lfloor>hi\<rfloor>"
proof -
  let ?n = "\<lfloor>hi\<rfloor> - \<lceil>lo\<rceil> + 1"
  have "0 < ?n" using assms(2) by simp
  with assms(1) have "0 \<le> \<lfloor>r * of_int ?n\<rfloor> \<and> \<lfloor>r * of_int ?n\<rfloor> < ?n"
    by (rule floor_scaled_bounds)
  then show ?thesis by (simp add: getRandomInt_def Let_def)
qed

lemma getRandomInt_bounds_witness:
  "(valid_draw (0.99 :: real) \<and> \<lceil>0.5 :: real\<rceil> \<le> \<lfloor>7.5 :: real\<rfloor>) \<and>
   \<lceil>0.5 :: real\<rceil> \<le> getRandomInt 0.5 7.5 0.99 \<and> getRandomInt 0.5 7.5 0.99 \<le> \<lfloor>7.5 :: real\<rfloor>"
proof -
  have h1: "valid_draw (0.99 :: real)" by (simp add: valid_draw_def)
  have h2: "\<lceil>0.5 :: real\<rceil> \<le> \<lfloor>7.5 :: real\<rfloor>" by simp
  show ?thesis using h1 h2 getRandomInt_bounds [OF h1 h2] by simp
qed

text \<open>
  C14: a whole round is uniform: with valid draws, the round \<open>(s, c)\<close> comes out exactly
  when \<open>c\<close> is on the board, the colour draw is in the half of \<open>s\<close> and the two
  coordinate draws are in the eighths of \<open>c\<close>; the \<open>128\<close> boxes have equal volume
  \<open>1/2 \<cdot> 1/8 \<cdot> 1/8\<close>.
\<close>

theorem random_round_uniform:
  assumes "valid_draws (rc, rx, ry)"
  shows "random_round (rc, rx, ry) = (s, c) \<longleftrightarrow>
           on_board c \<and> rc \<in> side_draws s \<and> rx \<in> slot 8 (coord_x c) \<and> ry \<in> slot 8 (coord_y c)"
proof -
  have v: "valid_draw rc" "valid_draw rx" "valid_draw ry"
    using assms by (simp_all add: valid_draws_def)
  have side: "randomPiecesColor rc = s \<longleftrightarrow> rc \<in> side_draws s"
    using v(1) by (cases s) (auto simp: randomPiecesColor_def side_draws_def valid_draw_def)
  have cx: "\<lfloor>rx * 8\<rfloor> = coord_x c \<longleftrightarrow> rx \<in> slot 8 (coord_x c)"
    using floor_scaled_eq_iff [of 8 rx] by simp
  have cy: "\<lfloor>ry * 8\<rfloor> = coord_y c \<longleftrightarrow> ry \<in> slot 8 (coord_y c)"
    using floor_scaled_eq_iff [of 8 ry] by simp
  have ob: "on_board (randomCoordinates rx ry)"
    using v by (simp add: randomCoordinates_on_board_aux)
  have "randomCoordinates rx ry = c \<longleftrightarrow> \<lfloor>rx * 8\<rfloor> = coord_x c \<and> \<lfloor>ry * 8\<rfloor> = coord_y c"
    by (auto simp: randomCoordinates_def getRandomInt_0_7)
  with ob side cx cy show ?thesis
    by (auto simp: random_round_def)
qed

lemma random_round_uniform_witness:
  "valid_draws (0.7, 0.3, 0.95) \<and>
   (random_round (0.7, 0.3, 0.95) = (BLACK, \<lparr>coord_x = 2, coord_y = 7\<rparr>) \<longleftrightarrow>
      on_board \<lparr>coord_x = 2, coord_y = 7\<rparr> \<and> (0.7::real) \<in> side_draws BLACK \<and>
      (0.3::real) \<in> slot 8 (coord_x \<lparr>coord_x = 2, coord_y = 7\<rparr>) \<and>
      (0.95::real) \<in> slot 8 (coord_y \<lparr>coord_x = 2, coord_y = 7::int\<rparr>))"
proof -
  have h: "valid_draws (0.7, 0.3, 0.95)" by (simp add: valid_draws_def valid_draw_def)
  show ?thesis using h random_round_uniform [OF h, of BLACK "\<lparr>coord_x = 2, coord_y = 7\<rparr>"] by simp
qed

end
