(* ===== verification/Clock.thy ===== *)
theory Clock
  imports Prelude
begin

text \<open>
  The countdown \<^verbatim>\<open>class Clock\<close> of \<^verbatim>\<open>src/src/App.js\<close> (lines 38--73).
  Its state is \<^verbatim>\<open>this.state.seconds\<close> and whether its interval is registered
  (\<open>ticking\<close>): \<^verbatim>\<open>componentDidMount\<close> registers it, the callback and
  \<^verbatim>\<open>componentWillUnmount\<close> clear it, and a cleared interval never fires again.

  The callback calls \<^verbatim>\<open>this.setState\<close> with a decrement and then reads
  \<^verbatim>\<open>this.state.seconds\<close>. What that read sees depends on React: before React 18 a
  \<^verbatim>\<open>setState\<close> outside a React event handler is applied at once (\<open>SyncSetState\<close>),
  from React 18 on it is batched and the read sees the value before the decrement
  (\<open>BatchedSetState\<close>). The repository does not pin the version, so every lemma says
  which mode it is about. \<open>clock_tick\<close> returns the new state and whether it called
  \<^verbatim>\<open>onDone\<close>; \<open>clock_run\<close> runs a list of events and counts the calls.
\<close>

datatype react_mode = SyncSetState | BatchedSetState

record clock_state =
  seconds :: int
  ticking :: bool

definition Clock_constructor :: "int \<Rightarrow> clock_state" where
  "Clock_constructor s = \<lparr>seconds = s, ticking = False\<rparr>"

definition Clock_componentDidMount :: "clock_state \<Rightarrow> clock_state" where
  "Clock_componentDidMount c = c\<lparr>ticking := True\<rparr>"

definition Clock_componentWillUnmount :: "clock_state \<Rightarrow> clock_state" where
  "Clock_componentWillUnmount c = c\<lparr>ticking := False\<rparr>"

definition clock_tick :: "react_mode \<Rightarrow> clock_state \<Rightarrow> clock_state \<times> bool" where
  "clock_tick m c =
     (let c' = c\<lparr>seconds := seconds c - 1\<rparr>;
          observed = (case m of SyncSetState \<Rightarrow> seconds c' | BatchedSetState \<Rightarrow> seconds c)
      in if observed \<le> 0 then (c'\<lparr>ticking := False\<rparr>, True) else (c', False))"

datatype clock_event = Tick | Unmount

fun clock_step :: "react_mode \<Rightarrow> clock_state \<Rightarrow> clock_event \<Rightarrow> clock_state \<times> nat" where
  "clock_step m c Tick =
     (if ticking c then (case clock_tick m c of (c', d) \<Rightarrow> (c', if d then 1 else 0)) else (c, 0))"
| "clock_step m c Unmount = (Clock_componentWillUnmount c, 0)"

fun clock_run :: "react_mode \<Rightarrow> clock_state \<Rightarrow> clock_event list \<Rightarrow> clock_state \<times> nat" where
  "clock_run m c [] = (c, 0)"
| "clock_run m c (e # es) =
     (case clock_step m c e of
        (c1, d1) \<Rightarrow> (case clock_run m c1 es of (c2, d2) \<Rightarrow> (c2, d1 + d2)))"

text \<open>\<^verbatim>\<open>render\<close>: minutes and the remainder, without zero padding.\<close>

definition clock_render :: "clock_state \<Rightarrow> string" where
  "clock_render c =
     js_int_to_string (seconds c div 60) @ '':'' @ js_int_to_string (js_rem (seconds c) 60)"

text \<open>\<^verbatim>\<open>GAME_SECONDS\<close> (line 22), the length of a game.\<close>

definition GAME_SECONDS :: int where
  "GAME_SECONDS = 60"

definition clock_mount :: "int \<Rightarrow> clock_state" where
  "clock_mount s = Clock_componentDidMount (Clock_constructor s)"

subsection \<open>Runs of the clock\<close>

lemma clock_mount_simps [simp]: "clock_mount s = \<lparr>seconds = s, ticking = True\<rparr>"
  by (simp add: clock_mount_def Clock_componentDidMount_def Clock_constructor_def)

lemma clock_run_stopped_count: "\<not> ticking c \<Longrightarrow> snd (clock_run m c es) = 0"
proof (induction es arbitrary: c)
  case Nil
  then show ?case by simp
next
  case (Cons e es)
  then show ?case
    by (cases e) (auto simp: Clock_componentWillUnmount_def split: prod.splits)
qed

lemma clock_run_Ticks_stopped:
  "\<not> ticking c \<Longrightarrow> clock_run m c (replicate k Tick) = (c, 0)"
  by (induction k) auto

lemma clock_run_append:
  "clock_run m c (es @ fs) =
     (case clock_run m c es of (c1, d1) \<Rightarrow> (case clock_run m c1 fs of (c2, d2) \<Rightarrow> (c2, d1 + d2)))"
  by (induction es arbitrary: c) (auto split: prod.splits)

lemma clock_run_count_le:
  "snd (clock_run m c es) \<le> (if ticking c then 1 else 0)"
proof (induction es arbitrary: c)
  case Nil
  then show ?case by simp
next
  case (Cons e es)
  show ?case
  proof (cases e)
    case Tick
    show ?thesis
    proof (cases "ticking c")
      case True
      obtain c' d where t: "clock_tick m c = (c', d)" by fastforce
      have "d \<Longrightarrow> \<not> ticking c'" and "\<not> d \<Longrightarrow> ticking c'"
        using t True by (auto simp: clock_tick_def Let_def split: if_splits)
      with Cons.IH [of c'] clock_run_stopped_count [of c' m es] t True Tick show ?thesis
        by (cases d) (auto split: prod.splits)
    next
      case False
      with Cons.IH [of c] Tick show ?thesis by (auto split: prod.splits)
    qed
  next
    case Unmount
    with clock_run_stopped_count [of "Clock_componentWillUnmount c" m es] show ?thesis
      by (auto simp: Clock_componentWillUnmount_def split: prod.splits)
  qed
qed

lemma clock_ticks_sync:
  "0 < s \<Longrightarrow> clock_run SyncSetState \<lparr>seconds = int s, ticking = True\<rparr> (replicate k Tick) =
     (if k < s then (\<lparr>seconds = int s - int k, ticking = True\<rparr>, 0)
      else (\<lparr>seconds = 0, ticking = False\<rparr>, 1))"
proof (induction k arbitrary: s)
  case 0
  then show ?case by simp
next
  case (Suc k)
  show ?case
  proof (cases "s = 1")
    case True
    then show ?thesis by (simp add: clock_tick_def clock_run_Ticks_stopped)
  next
    case False
    with Suc.prems have "0 < s - 1" and "k < s - 1 \<longleftrightarrow> Suc k < s" by arith+
    with Suc.IH [of "s - 1"] False Suc.prems show ?thesis
      by (simp add: clock_tick_def of_nat_diff)
  qed
qed

lemma clock_ticks_batched:
  "clock_run BatchedSetState \<lparr>seconds = int s, ticking = True\<rparr> (replicate k Tick) =
     (if k \<le> s then (\<lparr>seconds = int s - int k, ticking = True\<rparr>, 0)
      else (\<lparr>seconds = -1, ticking = False\<rparr>, 1))"
proof (induction k arbitrary: s)
  case 0
  then show ?case by simp
next
  case (Suc k)
  show ?case
  proof (cases "s = 0")
    case True
    then show ?thesis by (simp add: clock_tick_def clock_run_Ticks_stopped)
  next
    case False
    then have "k \<le> s - 1 \<longleftrightarrow> Suc k \<le> s" by arith
    with Suc.IH [of "s - 1"] False show ?thesis
      by (simp add: clock_tick_def of_nat_diff)
  qed
qed

lemma clock_tick_not_done:
  "clock_tick m c = (c', False) \<Longrightarrow>
     ticking c' = ticking c \<and> seconds c' = seconds c - 1 \<and> 0 \<le> seconds c'"
  by (cases m) (auto simp: clock_tick_def Let_def split: if_splits)

lemma clock_tick_done: "clock_tick m c = (c', True) \<Longrightarrow> \<not> ticking c'"
  by (auto simp: clock_tick_def Let_def split: if_splits)

subsection \<open>Properties of the countdown\<close>

text \<open>
  C9: with \<^verbatim>\<open>setState\<close> applied at once (React before 18), a clock started at
  \<^verbatim>\<open>GAME_SECONDS\<close> counts down one second per tick, calls \<^verbatim>\<open>onDone\<close> exactly
  once, at the 60th tick, and stops with \<open>0\<close> seconds; further ticks change nothing.
\<close>

theorem clock_sync_done_at_60:
  "clock_run SyncSetState (clock_mount GAME_SECONDS) (replicate k Tick) =
     (if k < 60 then (\<lparr>seconds = 60 - int k, ticking = True\<rparr>, 0)
      else (\<lparr>seconds = 0, ticking = False\<rparr>, 1))"
  using clock_ticks_sync [of 60 k] by (simp add: GAME_SECONDS_def)

text \<open>
  C10: with batched \<^verbatim>\<open>setState\<close> (React 18), the callback reads the value before its
  own decrement: \<^verbatim>\<open>onDone\<close> is called once, at the 61st tick, when the clock goes to
  \<open>-1\<close>; the game lasts one second longer than \<^verbatim>\<open>GAME_SECONDS\<close>.
\<close>

theorem clock_batched_done_at_61:
  "clock_run BatchedSetState (clock_mount GAME_SECONDS) (replicate k Tick) =
     (if k \<le> 60 then (\<lparr>seconds = 60 - int k, ticking = True\<rparr>, 0)
      else (\<lparr>seconds = -1, ticking = False\<rparr>, 1))"
  using clock_ticks_batched [of 60 k] by (simp add: GAME_SECONDS_def)

text \<open>
  C19: in either mode and for every sequence of ticks and unmounts, a mounted clock calls
  \<^verbatim>\<open>onDone\<close> at most once.
\<close>

theorem clock_done_at_most_once: "snd (clock_run m (clock_mount s) es) \<le> 1"
  using clock_run_count_le [of m "clock_mount s" es] by simp

text \<open>
  C20: unmounting the clock (quitting the game) before it has run out stops it for good:
  \<^verbatim>\<open>onDone\<close> is never called, whatever events come after, in either mode.
\<close>

theorem clock_unmount_before_done:
  assumes "k < 60"
  shows "snd (clock_run m (clock_mount GAME_SECONDS) (replicate k Tick @ Unmount # es)) = 0"
proof -
  have "clock_run m (clock_mount GAME_SECONDS) (replicate k Tick) =
          (\<lparr>seconds = 60 - int k, ticking = True\<rparr>, 0)"
    using assms clock_ticks_sync [of 60 k] clock_ticks_batched [of 60 k]
    by (cases m) (simp_all add: GAME_SECONDS_def)
  moreover have "snd (clock_run m (Clock_componentWillUnmount c) es) = 0" for c
    by (rule clock_run_stopped_count) (simp add: Clock_componentWillUnmount_def)
  ultimately show ?thesis
    by (simp add: clock_run_append split: prod.splits)
qed

lemma clock_unmount_before_done_witness:
  "(59::nat) < 60 \<and>
   snd (clock_run BatchedSetState (clock_mount GAME_SECONDS) (replicate 59 Tick @ Unmount # [Tick, Tick])) = 0"
proof -
  have h: "(59::nat) < 60" by simp
  show ?thesis using h clock_unmount_before_done [OF h, of BatchedSetState "[Tick, Tick]"] by simp
qed

end
