(* ===== verification/Board.thy ===== *)
theory Board
  imports Coordinates
begin

text \<open>
  The board \<^verbatim>\<open>class GameBoard\<close> of \<^verbatim>\<open>src/src/App.js\<close> (lines 180--248) and the
  colour palette \<^verbatim>\<open>SQUARE\<close> (lines 9--14).
  The 640 by 640 canvas is modelled by the colour last filled into each 80 by 80 cell:
  \<^verbatim>\<open>ctx.fillRect(x * 80, y * 80, 80, 80)\<close> is \<open>fillCell x y\<close>, and a rectangle
  outside the canvas is clipped (no cell changes).
  \<^verbatim>\<open>componentDidMount\<close> is the two counting loops \<open>draw_rows\<close>/\<open>draw_cols\<close>, with
  the colour variable toggled after each cell as in the code.
  \<^verbatim>\<open>onClick\<close> turns the pointer offset into a cell, computes the cell's resting colour
  by the parity test of lines 207--213, paints it \<^verbatim>\<open>OK\<close> or \<^verbatim>\<open>WRONG\<close> by comparing
  the cell with the target, and returns the callback it passes to \<^verbatim>\<open>setTimeout\<close>
  (\<open>pending\<close>): a repaint, preceded by \<^verbatim>\<open>this.props.onCorrect()\<close> on a correct click.
  The callback runs 200 ms later; \<open>Game\<close> decides when.
\<close>

datatype square_colour = SQ_WHITE | SQ_BLACK | SQ_OK | SQ_WRONG

type_synonym canvas = "int \<times> int \<rightharpoonup> square_colour"

definition fillCell :: "int \<Rightarrow> int \<Rightarrow> square_colour \<Rightarrow> canvas \<Rightarrow> canvas" where
  "fillCell x y col cv = (if 0 \<le> x \<and> x < 8 \<and> 0 \<le> y \<and> y < 8 then cv((x, y) \<mapsto> col) else cv)"

definition toggle :: "square_colour \<Rightarrow> square_colour" where
  "toggle col = (if col = SQ_WHITE then SQ_BLACK else SQ_WHITE)"

function draw_cols :: "coordinates \<Rightarrow> int \<Rightarrow> square_colour \<Rightarrow> int \<Rightarrow> canvas \<Rightarrow> canvas" where
  "draw_cols t i col j cv =
     (if j < 8 then
        (let cv1 = fillCell j i col cv;
             cv2 = (if j = coord_x t \<and> i = coord_y t then fillCell j i SQ_OK cv1 else cv1)
         in draw_cols t i (toggle col) (j + 1) cv2)
      else cv)"
  by pat_completeness auto
termination
  by (relation "measure (\<lambda>(t, i, col, j, cv). nat (8 - j))") auto

function draw_rows :: "coordinates \<Rightarrow> int \<Rightarrow> canvas \<Rightarrow> canvas" where
  "draw_rows t i cv =
     (if i < 8 then
        draw_rows t (i + 1) (draw_cols t i (if js_rem i 2 = 0 then SQ_WHITE else SQ_BLACK) 0 cv)
      else cv)"
  by pat_completeness auto
termination
  by (relation "measure (\<lambda>(t, i, cv). nat (8 - i))") auto

declare draw_cols.simps [simp del] draw_rows.simps [simp del]

definition GameBoard_componentDidMount :: "coordinates \<Rightarrow> canvas \<Rightarrow> canvas" where
  "GameBoard_componentDidMount t cv = draw_rows t 0 cv"

text \<open>The resting colour \<^verbatim>\<open>onClick\<close> computes for the clicked cell.\<close>

definition resting_colour :: "int \<Rightarrow> int \<Rightarrow> square_colour" where
  "resting_colour x y =
     (let c0 = SQ_BLACK;
          c1 = (if js_rem y 2 = 0 \<and> js_rem x 2 = 0 then SQ_WHITE else c0)
      in if js_rem y 2 \<noteq> 0 \<and> js_rem x 2 \<noteq> 0 then SQ_WHITE else c1)"

text \<open>The cell under the pointer, from its offset to the canvas' top left corner.\<close>

definition click_cell :: "real \<Rightarrow> real \<Rightarrow> coordinates" where
  "click_cell px py = \<lparr>coord_x = \<lfloor>px / 80\<rfloor>, coord_y = \<lfloor>py / 80\<rfloor>\<rparr>"

datatype pending = Revert int int square_colour | CorrectThenRevert int int square_colour

definition GameBoard_onClick :: "coordinates \<Rightarrow> real \<Rightarrow> real \<Rightarrow> canvas \<Rightarrow> canvas \<times> pending" where
  "GameBoard_onClick t px py cv =
     (let c = click_cell px py; x = coord_x c; y = coord_y c; col = resting_colour x y in
      if coord_x t = x \<and> coord_y t = y
      then (fillCell x y SQ_OK cv, CorrectThenRevert x y col)
      else (fillCell x y SQ_WRONG cv, Revert x y col))"

text \<open>What the \<^verbatim>\<open>setTimeout\<close> callback does to the canvas it closed over.\<close>

fun pending_repaint :: "pending \<Rightarrow> canvas \<Rightarrow> canvas" where
  "pending_repaint (Revert x y col) cv = fillCell x y col cv"
| "pending_repaint (CorrectThenRevert x y col) cv = fillCell x y col cv"

fun pending_correct :: "pending \<Rightarrow> bool" where
  "pending_correct (Revert _ _ _) = False"
| "pending_correct (CorrectThenRevert _ _ _) = True"

text \<open>A scheduled repaint restores the resting colour of its cell, as \<^verbatim>\<open>onClick\<close> computed it.\<close>

fun pending_resting :: "pending \<Rightarrow> bool" where
  "pending_resting (Revert x y col) = (col = resting_colour x y)"
| "pending_resting (CorrectThenRevert x y col) = (col = resting_colour x y)"

subsection \<open>The checkerboard\<close>

definition parity_colour :: "int \<Rightarrow> square_colour" where
  "parity_colour n = (if even n then SQ_WHITE else SQ_BLACK)"

lemma toggle_parity_colour [simp]: "toggle (parity_colour n) = parity_colour (n + 1)"
  by (simp add: toggle_def parity_colour_def)

lemma resting_colour_parity: "resting_colour x y = parity_colour (x + y)"
  by (auto simp: resting_colour_def parity_colour_def js_rem_parity Let_def)

lemma fillCell_apply:
  "fillCell x y col cv (a, b) =
     (if a = x \<and> b = y \<and> 0 \<le> x \<and> x < 8 \<and> 0 \<le> y \<and> y < 8 then Some col else cv (a, b))"
  by (auto simp: fillCell_def)

lemma draw_cols_apply:
  "col = parity_colour (i + j) \<Longrightarrow>
   draw_cols t i col j cv (a, b) =
     (if b = i \<and> j \<le> a \<and> 0 \<le> a \<and> a < 8 \<and> 0 \<le> b \<and> b < 8
      then Some (if a = coord_x t \<and> b = coord_y t then SQ_OK else parity_colour (a + b))
      else cv (a, b))"
proof (induction t i col j cv rule: draw_cols.induct)
  case (1 t i col j cv)
  show ?case
  proof (cases "j < 8")
    case True
    let ?cv1 = "fillCell j i col cv"
    let ?cv2 = "if j = coord_x t \<and> i = coord_y t then fillCell j i SQ_OK ?cv1 else ?cv1"
    have step: "draw_cols t i col j cv = draw_cols t i (toggle col) (j + 1) ?cv2"
      using True by (simp add: draw_cols.simps [of t i col j cv] Let_def)
    have "toggle col = parity_colour (i + (j + 1))"
      using "1.prems" by (simp add: add.assoc)
    with True "1.IH" have IH: "draw_cols t i (toggle col) (j + 1) ?cv2 (a, b) =
       (if b = i \<and> j + 1 \<le> a \<and> 0 \<le> a \<and> a < 8 \<and> 0 \<le> b \<and> b < 8
        then Some (if a = coord_x t \<and> b = coord_y t then SQ_OK else parity_colour (a + b))
        else ?cv2 (a, b))"
      by (simp add: Let_def)
    have "draw_cols t i col j cv (a, b) = draw_cols t i (toggle col) (j + 1) ?cv2 (a, b)"
      by (simp only: step)
    also have "\<dots> = (if b = i \<and> j + 1 \<le> a \<and> 0 \<le> a \<and> a < 8 \<and> 0 \<le> b \<and> b < 8
        then Some (if a = coord_x t \<and> b = coord_y t then SQ_OK else parity_colour (a + b))
        else ?cv2 (a, b))"
      by (rule IH)
    also have "\<dots> = (if b = i \<and> j \<le> a \<and> 0 \<le> a \<and> a < 8 \<and> 0 \<le> b \<and> b < 8
        then Some (if a = coord_x t \<and> b = coord_y t then SQ_OK else parity_colour (a + b))
        else cv (a, b))"
      using "1.prems" by (auto simp: fillCell_apply add.commute)
    finally show ?thesis .
  next
    case False
    then show ?thesis by (auto simp: draw_cols.simps [of t i col j cv])
  qed
qed

lemma draw_rows_apply:
  "draw_rows t i cv (a, b) =
     (if i \<le> b \<and> 0 \<le> a \<and> a < 8 \<and> 0 \<le> b \<and> b < 8
      then Some (if a = coord_x t \<and> b = coord_y t then SQ_OK else parity_colour (a + b))
      else cv (a, b))"
proof (induction t i cv rule: draw_rows.induct)
  case (1 t i cv)
  show ?case
  proof (cases "i < 8")
    case True
    let ?col = "if js_rem i 2 = 0 then SQ_WHITE else SQ_BLACK"
    have col: "?col = parity_colour (i + 0)"
      by (simp add: parity_colour_def js_rem_parity)
    have "draw_rows t i cv (a, b) = draw_rows t (i + 1) (draw_cols t i ?col 0 cv) (a, b)"
      using True by (simp add: draw_rows.simps [of t i cv])
    also have "\<dots> = (if i + 1 \<le> b \<and> 0 \<le> a \<and> a < 8 \<and> 0 \<le> b \<and> b < 8
        then Some (if a = coord_x t \<and> b = coord_y t then SQ_OK else parity_colour (a + b))
        else draw_cols t i ?col 0 cv (a, b))"
      using True by (rule "1.IH")
    also have "\<dots> = (if i \<le> b \<and> 0 \<le> a \<and> a < 8 \<and> 0 \<le> b \<and> b < 8
        then Some (if a = coord_x t \<and> b = coord_y t then SQ_OK else parity_colour (a + b))
        else cv (a, b))"
      using draw_cols_apply [OF col, of t cv a b] by auto
    finally show ?thesis .
  next
    case False
    then show ?thesis by (auto simp: draw_rows.simps [of t i cv])
  qed
qed

lemma GameBoard_onClick_cases:
  "GameBoard_onClick t px py cv =
     (let c = click_cell px py; col = resting_colour (coord_x c) (coord_y c) in
      if c = t then (fillCell (coord_x c) (coord_y c) SQ_OK cv, CorrectThenRevert (coord_x c) (coord_y c) col)
      else (fillCell (coord_x c) (coord_y c) SQ_WRONG cv, Revert (coord_x c) (coord_y c) col))"
  by (auto simp: GameBoard_onClick_def Let_def click_cell_def)

lemma fillCell_fillCell [simp]: "fillCell x y c2 (fillCell x y c1 cv) = fillCell x y c2 cv"
  by (auto simp: fillCell_def)

subsection \<open>Hits and red marks\<close>

lemma resting_colour_not_mark: "resting_colour x y \<noteq> SQ_WRONG" "resting_colour x y \<noteq> SQ_OK"
  by (simp_all add: resting_colour_parity parity_colour_def)

lemma GameBoard_mount_not_wrong: "GameBoard_componentDidMount t Map.empty c \<noteq> Some SQ_WRONG"
  by (cases c) (simp add: GameBoard_componentDidMount_def draw_rows_apply parity_colour_def)

lemma GameBoard_onClick_marks:
  assumes "GameBoard_onClick t px py cv = (cv', p)"
  shows "pending_resting p"
    and "cv' (x, y) = Some SQ_WRONG \<Longrightarrow>
         cv (x, y) = Some SQ_WRONG \<or>
         (p = Revert x y (resting_colour x y) \<and> 0 \<le> x \<and> x < 8 \<and> 0 \<le> y \<and> y < 8)"
  using assms by (auto simp: GameBoard_onClick_def Let_def fillCell_apply split: if_splits)

lemma pending_repaint_marks:
  assumes "pending_resting p" and "pending_repaint p cv (x, y) = Some SQ_WRONG"
  shows "cv (x, y) = Some SQ_WRONG"
    and "p = Revert x y col \<Longrightarrow> \<not> (0 \<le> x \<and> x < 8 \<and> 0 \<le> y \<and> y < 8)"
  using assms by (cases p; auto simp: fillCell_apply resting_colour_not_mark split: if_splits)+

lemma GameBoard_onClick_hit:
  "click_cell px py = t \<Longrightarrow>
   GameBoard_onClick t px py cv =
     (fillCell (coord_x t) (coord_y t) SQ_OK cv,
      CorrectThenRevert (coord_x t) (coord_y t) (resting_colour (coord_x t) (coord_y t)))"
  by (simp add: GameBoard_onClick_cases Let_def)

subsection \<open>Properties of the board\<close>

text \<open>
  C21: mounting the board paints every cell of the canvas: the target cell \<^verbatim>\<open>OK\<close>,
  every other cell in the resting colour that \<^verbatim>\<open>onClick\<close> recomputes by its own parity
  test; the two colour computations of the code agree on every cell, and nothing off the
  board is touched.
\<close>

theorem GameBoard_mount_colours:
  "GameBoard_componentDidMount t cv (x, y) =
     (if on_board \<lparr>coord_x = x, coord_y = y\<rparr>
      then Some (if x = coord_x t \<and> y = coord_y t then SQ_OK else resting_colour x y)
      else cv (x, y))"
  by (simp add: GameBoard_componentDidMount_def draw_rows_apply on_board_def resting_colour_parity)

text \<open>
  C1: the round resolver: a click schedules \<^verbatim>\<open>onCorrect\<close> exactly when the cell under
  the pointer is the target cell; the verdict depends on the coordinates only, never on
  the perspective or the label.
\<close>

theorem GameBoard_onClick_verdict:
  "pending_correct (snd (GameBoard_onClick t px py cv)) \<longleftrightarrow> click_cell px py = t"
  by (simp add: GameBoard_onClick_cases Let_def)

text \<open>
  C27: every pointer offset inside the 640 by 640 canvas falls in a cell of the board.
\<close>

theorem click_cell_on_board:
  assumes "0 \<le> px" "px < 640" "0 \<le> py" "py < 640"
  shows "on_board (click_cell px py)"
  using assms by (simp add: click_cell_def on_board_def floor_less_iff)

lemma click_cell_on_board_witness:
  "((0::real) \<le> 639.5 \<and> (639.5::real) < 640 \<and> (0::real) \<le> 0 \<and> (0::real) < 640) \<and>
   on_board (click_cell 639.5 0)"
proof -
  have h: "(0::real) \<le> 639.5" "(639.5::real) < 640" "(0::real) \<le> 0" "(0::real) < 640" by simp_all
  show ?thesis using h click_cell_on_board [OF h] by simp
qed

text \<open>
  C28: the highlight of a click is transient: once the timeout has repainted, the canvas
  is the one before the click with the clicked cell in its resting colour, on either
  verdict.
\<close>

theorem GameBoard_onClick_repaint:
  "(case GameBoard_onClick t px py cv of (cv1, p) \<Rightarrow> pending_repaint p cv1) =
     fillCell (coord_x (click_cell px py)) (coord_y (click_cell px py))
       (resting_colour (coord_x (click_cell px py)) (coord_y (click_cell px py))) cv"
  by (simp add: GameBoard_onClick_cases Let_def)

end
