(* ===== verification/Storage.thy ===== *)
theory Storage
  imports Prelude
begin

text \<open>
  Persistence of the high score in \<^verbatim>\<open>src/src/App.js\<close>: the constructor of
  \<^verbatim>\<open>App\<close> reads \<^verbatim>\<open>parseInt(localStorage.getItem("highScore") || 0)\<close> (line 305) and
  \<^verbatim>\<open>incScore\<close> writes \<^verbatim>\<open>localStorage.setItem("highScore", newScore.toString())\<close>
  (line 327). \<^verbatim>\<open>localStorage\<close> is a map from strings to strings.
  \<^verbatim>\<open>parseInt\<close> with no radix is modelled after the ECMAScript algorithm: leading white
  space is dropped, one sign is read, a \<^verbatim>\<open>0x\<close>/\<^verbatim>\<open>0X\<close> prefix switches to radix 16,
  and the longest prefix of digits of the radix is read; no digit at all gives \<open>NaN\<close>.
  White space is the ASCII subset (tab, line feed, vertical tab, form feed, carriage
  return, space): HOL characters are bytes, and the non-ASCII white space of the standard
  cannot occur in a value the program writes. \<^verbatim>\<open>x || 0\<close> replaces \<^verbatim>\<open>null\<close> and the
  empty string by the number \<open>0\<close>, which \<^verbatim>\<open>parseInt\<close> reads as the string \<open>"0"\<close>.
\<close>

type_synonym local_storage = "string \<rightharpoonup> string"

definition is_js_ws :: "char \<Rightarrow> bool" where
  "is_js_ws c \<longleftrightarrow> (of_char c :: nat) \<in> {9, 10, 11, 12, 13, 32}"

text \<open>The value of a character as a digit of radix up to 36 (\<open>36\<close>: not a digit).\<close>

definition digit_value :: "char \<Rightarrow> nat" where
  "digit_value c =
     (let n = (of_char c :: nat) in
      if 48 \<le> n \<and> n < 58 then n - 48
      else if 97 \<le> n \<and> n < 123 then n - 87
      else if 65 \<le> n \<and> n < 91 then n - 55
      else 36)"

definition digits_value :: "nat \<Rightarrow> string \<Rightarrow> nat" where
  "digits_value radix ds = foldl (\<lambda>acc c. radix * acc + digit_value c) 0 ds"

definition parseInt :: "string \<Rightarrow> jsnum" where
  "parseInt str =
     (let s1 = dropWhile is_js_ws str;
          sign = (if s1 \<noteq> [] \<and> hd s1 = CHR ''-'' then -1 else (1::int));
          s2 = (if s1 \<noteq> [] \<and> (hd s1 = CHR ''-'' \<or> hd s1 = CHR ''+'') then tl s1 else s1);
          hex = (take 2 s2 = ''0x'' \<or> take 2 s2 = ''0X'');
          radix = (if hex then 16 else 10);
          s3 = (if hex then drop 2 s2 else s2);
          ds = takeWhile (\<lambda>c. digit_value c < radix) s3
      in if ds = [] then NaN else JInt (sign * int (digits_value radix ds)))"

text \<open>The value \<^verbatim>\<open>parseInt\<close> receives from \<^verbatim>\<open>localStorage.getItem("highScore") || 0\<close>.\<close>

definition js_or_zero :: "string option \<Rightarrow> string" where
  "js_or_zero v = (case v of None \<Rightarrow> ''0'' | Some s \<Rightarrow> if s = [] then ''0'' else s)"

definition loadHighScore :: "local_storage \<Rightarrow> jsnum" where
  "loadHighScore st = parseInt (js_or_zero (st ''highScore''))"

definition saveHighScore :: "int \<Rightarrow> local_storage \<Rightarrow> local_storage" where
  "saveHighScore n st = st(''highScore'' \<mapsto> js_int_to_string n)"

subsection \<open>Reading back what was written\<close>

lemma digit_not_special:
  assumes "is_digit c"
  shows "\<not> is_js_ws c" and "c \<noteq> CHR ''-''" and "c \<noteq> CHR ''+''" and "c \<noteq> CHR ''x''"
    and "digit_value c = of_char c - 48" and "digit_value c < 10"
  using assms by (auto simp: is_digit_def is_js_ws_def digit_value_def)

lemma parseInt_digit_string:
  assumes ne: "s \<noteq> []" and dig: "\<forall>c \<in> set s. is_digit c"
  shows "parseInt s = JInt (int (foldl (\<lambda>acc c. 10 * acc + (of_char c - 48)) 0 s))"
    and "parseInt (CHR ''-'' # s) = JInt (- int (foldl (\<lambda>acc c. 10 * acc + (of_char c - 48)) 0 s))"
proof -
  have hd: "is_digit (hd s)" using ne dig by simp
  have drop: "dropWhile is_js_ws s = s"
    using ne hd by (simp add: dropWhile_eq_self_iff digit_not_special)
  have nohex: "\<not> (take 2 s = ''0x'' \<or> take 2 s = ''0X'')"
  proof
    assume "take 2 s = ''0x'' \<or> take 2 s = ''0X''"
    then have "CHR ''x'' \<in> set (take 2 s) \<or> CHR ''X'' \<in> set (take 2 s)" by auto
    then have "CHR ''x'' \<in> set s \<or> CHR ''X'' \<in> set s" by (auto dest: in_set_takeD)
    with dig show False by (auto simp: is_digit_def)
  qed
  have tw: "takeWhile (\<lambda>c. digit_value c < 10) s = s"
    using dig by (auto simp: takeWhile_eq_all_conv digit_value_def is_digit_def)
  have val: "digits_value 10 s = foldl (\<lambda>acc c. 10 * acc + (of_char c - 48)) 0 s"
    unfolding digits_value_def using dig by (intro foldl_cong) (simp_all add: digit_not_special)
  show "parseInt s = JInt (int (foldl (\<lambda>acc c. 10 * acc + (of_char c - 48)) 0 s))"
    using ne hd nohex by (simp add: parseInt_def Let_def digit_not_special drop tw val)
  show "parseInt (CHR ''-'' # s) = JInt (- int (foldl (\<lambda>acc c. 10 * acc + (of_char c - 48)) 0 s))"
    using ne hd nohex by (simp add: parseInt_def Let_def is_js_ws_def tw val)
qed

lemma parseInt_js_int_to_string_aux: "parseInt (js_int_to_string n) = JInt n"
  using parseInt_digit_string [OF nat_digits_not_Nil nat_digits_all_digits]
  by (simp add: js_int_to_string_def nat_digits_value)

lemma loadHighScore_saveHighScore_aux: "loadHighScore (saveHighScore n st) = JInt n"
proof -
  have "js_int_to_string n \<noteq> []"
    by (simp add: js_int_to_string_def)
  then show ?thesis
    by (simp add: loadHighScore_def saveHighScore_def js_or_zero_def parseInt_js_int_to_string_aux)
qed

subsection \<open>Properties of the persistence\<close>

text \<open>
  C23: loading the high score after saving \<open>n\<close> gives \<open>n\<close>, whatever the storage
  held before.
\<close>

theorem loadHighScore_after_save: "loadHighScore (saveHighScore n st) = JInt n"
  by (rule loadHighScore_saveHighScore_aux)

end
