(* ===== verification/Session.thy ===== *)
theory Session
  imports Storage
begin

text \<open>
  The session controller, \<^verbatim>\<open>class App\<close> of \<^verbatim>\<open>src/src/App.js\<close> (lines 300--371), and
  the screen enumeration \<^verbatim>\<open>GameScreens\<close> (lines 16--20).
  Its state is the record \<open>app_state\<close>; \<^verbatim>\<open>localStorage\<close> is threaded beside it, since
  \<^verbatim>\<open>incScore\<close> writes the new high score there from inside its state updater.
  \<^verbatim>\<open>changeScreen\<close> and \<^verbatim>\<open>incScore\<close> are \<^verbatim>\<open>setState\<close> calls with an updater
  function; the model applies the updater to the state, which is what React does when it
  processes the update, in either mode of \<open>Clock.react_mode\<close>.
  The high score is a JS number (\<open>jsnum\<close>): \<^verbatim>\<open>parseInt\<close> of a corrupted stored value is
  \<open>NaN\<close>, and then \<^verbatim>\<open>newScore > prevState.highScore\<close> is always false.
\<close>

datatype screen = MENU | BOARD | END

record app_state =
  score :: int
  highScore :: jsnum
  isNewHighScore :: bool
  screen :: screen

definition App_constructor :: "local_storage \<Rightarrow> app_state" where
  "App_constructor st =
     \<lparr>score = 0, highScore = loadHighScore st, isNewHighScore = False, screen = MENU\<rparr>"

definition changeScreen :: "screen \<Rightarrow> app_state \<Rightarrow> app_state" where
  "changeScreen scr a =
     a\<lparr>screen := scr,
       isNewHighScore := (if scr \<noteq> END then False else isNewHighScore a),
       score := (if scr = BOARD then 0 else score a)\<rparr>"

definition incScore :: "app_state \<Rightarrow> local_storage \<Rightarrow> app_state \<times> local_storage" where
  "incScore a st =
     (let newScore = score a + 1;
          isNew = js_gt (JInt newScore) (highScore a);
          st' = (if isNew then saveHighScore newScore st else st)
      in (a\<lparr>score := newScore,
            highScore := (if isNew then JInt newScore else highScore a),
            isNewHighScore := isNew\<rparr>, st'))"

text \<open>\<open>k\<close> correct answers in a row, as \<^verbatim>\<open>incScore\<close> sees them.\<close>

definition incScore_times :: "nat \<Rightarrow> app_state \<times> local_storage \<Rightarrow> app_state \<times> local_storage" where
  "incScore_times k = (\<lambda>(a, st). incScore a st) ^^ k"

text \<open>
  The score is never negative and never above the high score (or above \<open>0\<close> while
  a negative stored high score is unbeaten), and the new-high-score flag is only set when
  the score is the high score. A \<open>NaN\<close> high score never sets the flag.
\<close>

definition app_inv :: "app_state \<Rightarrow> bool" where
  "app_inv a \<longleftrightarrow> 0 \<le> score a \<and>
     (case highScore a of
        JInt h \<Rightarrow> score a \<le> max h 0 \<and> (isNewHighScore a \<longrightarrow> score a = h)
      | NaN \<Rightarrow> \<not> isNewHighScore a)"

subsection \<open>One increment\<close>

lemma incScore_JInt:
  "incScore \<lparr>score = s, highScore = JInt h, isNewHighScore = b, screen = scr\<rparr> st =
     (\<lparr>score = s + 1, highScore = JInt (max h (s + 1)), isNewHighScore = (h < s + 1), screen = scr\<rparr>,
      if h < s + 1 then saveHighScore (s + 1) st else st)"
  by (auto simp: incScore_def Let_def max_def)

lemma incScore_NaN:
  "incScore \<lparr>score = s, highScore = NaN, isNewHighScore = b, screen = scr\<rparr> st =
     (\<lparr>score = s + 1, highScore = NaN, isNewHighScore = False, screen = scr\<rparr>, st)"
  by (simp add: incScore_def Let_def)

lemma incScore_times_JInt:
  "incScore_times k (\<lparr>score = s, highScore = JInt h, isNewHighScore = b, screen = scr\<rparr>, st) =
     (\<lparr>score = s + int k, highScore = JInt (if k = 0 then h else max h (s + int k)),
       isNewHighScore = (if k = 0 then b else h < s + int k), screen = scr\<rparr>,
      if h < s + int k \<and> 0 < k then saveHighScore (s + int k) st else st)"
proof (induction k)
  case 0
  then show ?case by (simp add: incScore_times_def)
next
  case (Suc k)
  have "incScore_times (Suc k) (\<lparr>score = s, highScore = JInt h, isNewHighScore = b, screen = scr\<rparr>, st) =
        (\<lambda>(a, st). incScore a st) (incScore_times k (\<lparr>score = s, highScore = JInt h, isNewHighScore = b, screen = scr\<rparr>, st))"
    by (simp add: incScore_times_def)
  also have "\<dots> = (\<lparr>score = s + int (Suc k), highScore = JInt (max h (s + int (Suc k))),
       isNewHighScore = (h < s + int (Suc k)), screen = scr\<rparr>,
      if h < s + int (Suc k) then saveHighScore (s + int (Suc k)) st else st)"
    by (auto simp: Suc.IH incScore_JInt max_def saveHighScore_def ac_simps)
  finally show ?case by simp
qed

lemma incScore_times_NaN:
  "incScore_times k (\<lparr>score = s, highScore = NaN, isNewHighScore = b, screen = scr\<rparr>, st) =
     (\<lparr>score = s + int k, highScore = NaN, isNewHighScore = (if k = 0 then b else False),
       screen = scr\<rparr>, st)"
proof (induction k)
  case 0
  then show ?case by (simp add: incScore_times_def)
next
  case (Suc k)
  then show ?case by (simp add: incScore_times_def incScore_NaN ac_simps)
qed

lemma changeScreen_record:
  "changeScreen scr \<lparr>score = s, highScore = hs, isNewHighScore = b, screen = scr0\<rparr> =
     \<lparr>score = (if scr = BOARD then 0 else s), highScore = hs,
      isNewHighScore = (scr = END \<and> b), screen = scr\<rparr>"
  by (simp add: changeScreen_def)

lemma loadHighScore_empty: "loadHighScore Map.empty = JInt 0"
  by (simp add: loadHighScore_def js_or_zero_def parseInt_def is_js_ws_def digits_value_def
      digit_value_def)

subsection \<open>Invariants kept by every operation of \<^verbatim>\<open>App\<close>\<close>

lemma app_inv_App_constructor: "app_inv (App_constructor st)"
  by (simp add: app_inv_def App_constructor_def split: jsnum.split)

lemma app_inv_changeScreen: "app_inv a \<Longrightarrow> app_inv (changeScreen scr a)"
  by (auto simp: app_inv_def changeScreen_def split: jsnum.splits)

lemma app_inv_incScore: "app_inv a \<Longrightarrow> app_inv (fst (incScore a st))"
  by (auto simp: app_inv_def incScore_def Let_def split: jsnum.splits)

lemma incScore_screen [simp]: "screen (fst (incScore a st)) = screen a"
  by (simp add: incScore_def Let_def)

lemma incScore_highScore_mono:
  "highScore a = JInt h \<Longrightarrow> \<exists>h'. highScore (fst (incScore a st)) = JInt h' \<and> h \<le> h'"
  by (auto simp: incScore_def Let_def)

lemma changeScreen_simps [simp]:
  "screen (changeScreen scr a) = scr"
  "highScore (changeScreen scr a) = highScore a"
  by (simp_all add: changeScreen_def)

subsection \<open>Properties of the session\<close>

text \<open>
  C13: a session of \<open>k\<close> correct answers, entered through \<^verbatim>\<open>changeScreen(BOARD)\<close>
  from any state with high score \<open>h\<close>: the score is \<open>k\<close>, the high score
  \<open>max h k\<close>, the new-high-score flag says \<open>h < k\<close>, and \<open>k\<close> is persisted
  exactly when it beats \<open>h\<close>.
\<close>

theorem session_k_correct_answers:
  "incScore_times k
     (changeScreen BOARD \<lparr>score = s, highScore = JInt h, isNewHighScore = b, screen = scr\<rparr>, st) =
   (\<lparr>score = int k, highScore = JInt (if k = 0 then h else max h (int k)),
     isNewHighScore = (0 < k \<and> h < int k), screen = BOARD\<rparr>,
    if 0 < k \<and> h < int k then saveHighScore (int k) st else st)"
  by (auto simp: changeScreen_record incScore_times_JInt)

text \<open>
  C29: once the high score is \<open>NaN\<close> (a corrupted stored value), no score ever beats it:
  the high score stays \<open>NaN\<close>, the new-high-score flag stays false and nothing is
  written to storage, however many correct answers follow.
\<close>

theorem session_NaN_high_score_sticks:
  "incScore_times k
     (changeScreen BOARD \<lparr>score = s, highScore = NaN, isNewHighScore = b, screen = scr\<rparr>, st) =
   (\<lparr>score = int k, highScore = NaN, isNewHighScore = False, screen = BOARD\<rparr>, st)"
  by (simp add: changeScreen_record incScore_times_NaN)

end
