(* ===== verification/Game.thy ===== *)
theory Game
  imports Targets Clock Board Session
begin

text \<open>
  The whole program of \<^verbatim>\<open>src/src/App.js\<close> as one state machine: \<^verbatim>\<open>App\<close> with the
  \<^verbatim>\<open>GameScreen\<close> it renders on the \<open>BOARD\<close> screen (lines 108--178), that screen's
  \<^verbatim>\<open>Clock\<close> and \<^verbatim>\<open>GameBoard\<close>, \<^verbatim>\<open>localStorage\<close>, and the callbacks waiting in the
  browser's timer queue.
  \<^item> \<open>game_state\<close> holds the state of every mounted component; \<open>generation\<close> counts the
    \<^verbatim>\<open>GameScreen\<close> instances mounted so far, and each waiting \<^verbatim>\<open>setTimeout\<close>
    callback is stored with the generation of the board that scheduled it, oldest first
    (all are scheduled with the same 200 ms delay, so they run in that order).
  \<^item> \<open>event\<close> is what can happen next: a button press on the screen that shows it, the
    interval of the clock, a click on the canvas, or the oldest timeout running. Every call
    of \<^verbatim>\<open>Math.random\<close> the event causes is an argument of it (\<open>draws\<close>).
  \<^item> \<open>game_step\<close> is \<open>None\<close> when the event cannot happen in the state (no such button
    on the screen, no interval registered, no timeout waiting) or when its draws are not
    values \<^verbatim>\<open>Math.random\<close> can return.
  A correct-click callback that runs after its board was unmounted still calls
  \<^verbatim>\<open>this.props.incScore()\<close>, which is \<^verbatim>\<open>App.incScore\<close> and changes the live
  session; its \<^verbatim>\<open>setState\<close> on the unmounted \<^verbatim>\<open>GameScreen\<close> and its painting of the
  detached canvas have no effect. This is what the code does, and \<open>game_step\<close> does it.
  The theory proves the invariants \<open>game_inv\<close> and \<open>marks_inv\<close> of every reachable
  state, what a step does to \<^verbatim>\<open>App\<close> (\<open>game_step_app\<close>) and the run lemmas (the
  timer queue drains, the clock runs out) that \<open>Game_Properties\<close> builds on.
\<close>

record game_state =
  app :: app_state
  storage :: local_storage
  color :: side
  target :: coordinates
  clock :: clock_state
  canvas :: canvas
  timers :: "(nat \<times> pending) list"
  generation :: nat

datatype event =
    StartClick draws
  | RetryClick draws
  | ExitClick
  | QuitClick
  | IntervalFires
  | BoardClick real real
  | TimeoutFires draws

text \<open>The page loads: \<^verbatim>\<open>App\<close> is constructed on the menu; no game screen exists yet.\<close>

definition game_init :: "local_storage \<Rightarrow> game_state" where
  "game_init st =
     \<lparr>app = App_constructor st, storage = st, color = WHITE,
      target = \<lparr>coord_x = 0, coord_y = 0\<rparr>, clock = Clock_constructor GAME_SECONDS,
      canvas = Map.empty, timers = [], generation = 0\<rparr>"

text \<open>
  \<^verbatim>\<open>changeScreen(BOARD)\<close> renders a new \<^verbatim>\<open>GameScreen\<close>: its constructor draws the round,
  then \<^verbatim>\<open>Clock\<close> and \<^verbatim>\<open>GameBoard\<close> mount on a fresh canvas.
\<close>

definition enter_board :: "draws \<Rightarrow> game_state \<Rightarrow> game_state" where
  "enter_board d g =
     (case random_round d of (s, t) \<Rightarrow>
        g\<lparr>app := changeScreen BOARD (app g), color := s, target := t,
          clock := Clock_componentDidMount (Clock_constructor GAME_SECONDS),
          canvas := GameBoard_componentDidMount t Map.empty,
          generation := generation g + 1\<rparr>)"

text \<open>\<^verbatim>\<open>changeScreen(END)\<close> from the board unmounts it: the clock clears its interval.\<close>

definition leave_board :: "game_state \<Rightarrow> game_state" where
  "leave_board g =
     g\<lparr>app := changeScreen END (app g), clock := Clock_componentWillUnmount (clock g)\<rparr>"

definition board_live :: "nat \<Rightarrow> game_state \<Rightarrow> bool" where
  "board_live gen g \<longleftrightarrow> gen = generation g \<and> screen (app g) = BOARD"

text \<open>
  A timeout callback runs (lines 219--230): for a correct click, \<^verbatim>\<open>onCorrect\<close>, that is
  \<^verbatim>\<open>GameScreen.correct\<close> (lines 117--123): \<^verbatim>\<open>incScore\<close>, then a new round drawn and
  set on the screen if it is still mounted; then the repaint, visible only on a live board.
\<close>

definition fire_timeout :: "draws \<Rightarrow> nat \<Rightarrow> pending \<Rightarrow> game_state \<Rightarrow> game_state" where
  "fire_timeout d gen p g =
     (let live = board_live gen g;
          g1 = (if pending_correct p
                then (case incScore (app g) (storage g) of (a, st) \<Rightarrow> g\<lparr>app := a, storage := st\<rparr>)
                else g);
          g2 = (if pending_correct p \<and> live
                then (case random_round d of (s, t) \<Rightarrow> g1\<lparr>color := s, target := t\<rparr>)
                else g1)
      in if live then g2\<lparr>canvas := pending_repaint p (canvas g2)\<rparr> else g2)"

fun game_step :: "react_mode \<Rightarrow> event \<Rightarrow> game_state \<Rightarrow> game_state option" where
  "game_step m (StartClick d) g =
     (if screen (app g) = MENU \<and> valid_draws d then Some (enter_board d g) else None)"
| "game_step m (RetryClick d) g =
     (if screen (app g) = END \<and> valid_draws d then Some (enter_board d g) else None)"
| "game_step m ExitClick g =
     (if screen (app g) = END then Some (g\<lparr>app := changeScreen MENU (app g)\<rparr>) else None)"
| "game_step m QuitClick g =
     (if screen (app g) = BOARD then Some (leave_board g) else None)"
| "game_step m IntervalFires g =
     (if ticking (clock g) then
        (case clock_tick m (clock g) of
           (c, done) \<Rightarrow> Some (if done then leave_board (g\<lparr>clock := c\<rparr>) else g\<lparr>clock := c\<rparr>))
      else None)"
| "game_step m (BoardClick px py) g =
     (if screen (app g) = BOARD then
        (case GameBoard_onClick (target g) px py (canvas g) of
           (cv, p) \<Rightarrow> Some (g\<lparr>canvas := cv, timers := timers g @ [(generation g, p)]\<rparr>))
      else None)"
| "game_step m (TimeoutFires d) g =
     (case timers g of
        [] \<Rightarrow> None
      | (gen, p) # rest \<Rightarrow>
          if valid_draws d then Some (fire_timeout d gen p (g\<lparr>timers := rest\<rparr>)) else None)"

fun game_run :: "react_mode \<Rightarrow> event list \<Rightarrow> game_state \<Rightarrow> game_state option" where
  "game_run m [] g = Some g"
| "game_run m (e # es) g = (case game_step m e g of None \<Rightarrow> None | Some g' \<Rightarrow> game_run m es g')"

inductive reachable :: "react_mode \<Rightarrow> local_storage \<Rightarrow> game_state \<Rightarrow> bool" where
  init: "reachable m st (game_init st)"
| step: "reachable m st g \<Longrightarrow> game_step m e g = Some g' \<Longrightarrow> reachable m st g'"


text \<open>
  The label \<^verbatim>\<open>GameScreen.render\<close> shows (line 127): the target named from the
  perspective of the round's colour.
\<close>

definition GameScreen_square :: "game_state \<Rightarrow> string" where
  "GameScreen_square g = toChessBoardSquare (target g) (side_name (color g))"

text \<open>
  The session invariant of \<open>Session\<close>, the clock's interval registered exactly while
  the board is shown, with a value between \<open>0\<close> and \<^verbatim>\<open>GAME_SECONDS\<close>, and the
  target on the board.
\<close>

definition game_inv :: "game_state \<Rightarrow> bool" where
  "game_inv g \<longleftrightarrow>
     app_inv (app g) \<and>
     (ticking (clock g) \<longleftrightarrow> screen (app g) = BOARD) \<and>
     (ticking (clock g) \<longrightarrow> 0 \<le> seconds (clock g) \<and> seconds (clock g) \<le> GAME_SECONDS) \<and>
     on_board (target g)"

text \<open>The next event runs a correct-click callback whose board is gone.\<close>

definition stale_correct_timeout :: "game_state \<Rightarrow> bool" where
  "stale_correct_timeout g \<longleftrightarrow>
     (case timers g of [] \<Rightarrow> False | (gen, p) # _ \<Rightarrow> pending_correct p \<and> \<not> board_live gen g)"

text \<open>
  The red marks of the board: every scheduled repaint restores a resting colour, and every
  cell painted \<^verbatim>\<open>WRONG\<close> is a cell of the board whose revert is still waiting while
  its board is shown.
\<close>

definition marks_inv :: "game_state \<Rightarrow> bool" where
  "marks_inv g \<longleftrightarrow>
     (\<forall>e \<in> set (timers g). pending_resting (snd e)) \<and>
     (\<forall>x y. canvas g (x, y) = Some SQ_WRONG \<longrightarrow> 0 \<le> x \<and> x < 8 \<and> 0 \<le> y \<and> y < 8 \<and>
        (screen (app g) = BOARD \<longrightarrow> (\<exists>col. (generation g, Revert x y col) \<in> set (timers g))))"

text \<open>The state after one correct answer in a first game, used by the witnesses below.\<close>

abbreviation one_answer_run :: "event list" where
  "one_answer_run \<equiv> [StartClick (0.1, 0.1, 0.1), BoardClick 40 40, TimeoutFires (0.9, 0.9, 0.9)]"

abbreviation one_answer_state :: "react_mode \<Rightarrow> game_state" where
  "one_answer_state m \<equiv> the (game_run m one_answer_run (game_init Map.empty))"

text \<open>A first game in which the first click misses the target \<open>(0, 0)\<close>, hitting \<open>(1, 0)\<close>.\<close>

abbreviation wrong_click_run :: "event list" where
  "wrong_click_run \<equiv> [StartClick (0.1, 0.1, 0.1), BoardClick 120 40]"

subsection \<open>Runs and reachable states\<close>

lemma game_run_reachable:
  "reachable m st g \<Longrightarrow> game_run m es g = Some g' \<Longrightarrow> reachable m st g'"
proof (induction es arbitrary: g)
  case Nil
  then show ?case by simp
next
  case (Cons e es)
  then obtain g1 where "game_step m e g = Some g1" and "game_run m es g1 = Some g'"
    by (auto split: option.splits)
  with Cons show ?case by (blast intro: reachable.step)
qed

lemma game_run_from_init:
  "game_run m es (game_init st) = Some g \<Longrightarrow> reachable m st g"
  by (rule game_run_reachable [OF reachable.init])

subsection \<open>The invariant of the running program\<close>

lemma random_round_on_board: "valid_draws d \<Longrightarrow> on_board (snd (random_round d))"
  by (auto simp: valid_draws_def random_round_def randomCoordinates_on_board_aux split: prod.splits)

lemma fire_timeout_fields:
  "app (fire_timeout d gen p g) =
     (if pending_correct p then fst (incScore (app g) (storage g)) else app g)"
  "storage (fire_timeout d gen p g) =
     (if pending_correct p then snd (incScore (app g) (storage g)) else storage g)"
  "clock (fire_timeout d gen p g) = clock g"
  "generation (fire_timeout d gen p g) = generation g"
  "timers (fire_timeout d gen p g) = timers g"
  "target (fire_timeout d gen p g) =
     (if pending_correct p \<and> board_live gen g then snd (random_round d) else target g)"
  "canvas (fire_timeout d gen p g) =
     (if board_live gen g then pending_repaint p (canvas g) else canvas g)"
  by (simp_all add: fire_timeout_def Let_def split: prod.splits)

lemma fire_timeout_screen [simp]: "screen (app (fire_timeout d gen p g)) = screen (app g)"
  by (simp add: fire_timeout_fields)

lemma enter_board_fields [simp]:
  "app (enter_board d g) = changeScreen BOARD (app g)"
  "storage (enter_board d g) = storage g"
  "clock (enter_board d g) = \<lparr>seconds = GAME_SECONDS, ticking = True\<rparr>"
  "timers (enter_board d g) = timers g"
  "generation (enter_board d g) = Suc (generation g)"
  "target (enter_board d g) = snd (random_round d)"
  "canvas (enter_board d g) = GameBoard_componentDidMount (snd (random_round d)) Map.empty"
  by (simp_all add: enter_board_def Clock_componentDidMount_def Clock_constructor_def
      split: prod.splits)

lemma leave_board_fields [simp]:
  "app (leave_board g) = changeScreen END (app g)"
  "storage (leave_board g) = storage g"
  "ticking (clock (leave_board g)) = False"
  "timers (leave_board g) = timers g"
  "generation (leave_board g) = generation g"
  "target (leave_board g) = target g"
  "canvas (leave_board g) = canvas g"
  by (simp_all add: leave_board_def Clock_componentWillUnmount_def)

lemma game_inv_init: "game_inv (game_init st)"
  using app_inv_App_constructor [of st]
  by (simp add: game_inv_def game_init_def App_constructor_def Clock_constructor_def on_board_def)

lemma game_inv_fire_timeout:
  "game_inv g \<Longrightarrow> valid_draws d \<Longrightarrow> game_inv (fire_timeout d gen p g)"
  by (simp add: game_inv_def fire_timeout_fields app_inv_incScore random_round_on_board
      split: if_split)

lemma game_inv_interval:
  assumes "game_inv g" and "game_step m IntervalFires g = Some g'"
  shows "game_inv g'"
proof -
  obtain c fin where t: "clock_tick m (clock g) = (c, fin)" by fastforce
  have tk: "ticking (clock g)" using assms(2) by (simp split: if_splits)
  show ?thesis
  proof (cases fin)
    case True
    with assms tk t have "g' = leave_board (g\<lparr>clock := c\<rparr>)" by simp
    moreover have "game_inv (leave_board (g\<lparr>clock := c\<rparr>))"
      using assms(1) by (simp add: game_inv_def app_inv_changeScreen)
    ultimately show ?thesis by simp
  next
    case False
    with assms tk t have "g' = g\<lparr>clock := c\<rparr>" by simp
    with assms(1) tk t False clock_tick_not_done [of m "clock g" c] show ?thesis
      by (simp add: game_inv_def)
  qed
qed

lemma game_step_inv:
  assumes "game_inv g" and "game_step m e g = Some g'"
  shows "game_inv g'"
proof (cases e)
  case IntervalFires
  with assms show ?thesis by (simp only: game_inv_interval)
next
  case ExitClick
  with assms show ?thesis by (auto simp: game_inv_def app_inv_changeScreen split: if_splits)
next
  case (TimeoutFires d)
  with assms(2) obtain gen p rest where "timers g = (gen, p) # rest" and "valid_draws d"
    and g': "g' = fire_timeout d gen p (g\<lparr>timers := rest\<rparr>)"
    by (auto split: list.splits if_splits)
  moreover have "game_inv (g\<lparr>timers := rest\<rparr>)" using assms(1) by (simp add: game_inv_def)
  ultimately show ?thesis by (simp add: game_inv_fire_timeout)
qed (use assms in \<open>auto simp: game_inv_def app_inv_changeScreen GAME_SECONDS_def
        random_round_on_board split: if_splits prod.splits\<close>)

text \<open>
  What a step does to the state of \<^verbatim>\<open>App\<close>: nothing, a \<^verbatim>\<open>changeScreen\<close> along
  one of the four edges the rendered buttons and the clock offer, or an
  \<^verbatim>\<open>incScore\<close> from a timeout callback, on the board unless the callback is stale.
\<close>

lemma game_step_app:
  assumes inv: "game_inv g" and st: "game_step m e g = Some g'"
  shows "app g' = app g \<or>
         (\<exists>scr. app g' = changeScreen scr (app g) \<and>
            (screen (app g), scr) \<in> {(MENU, BOARD), (BOARD, END), (END, BOARD), (END, MENU)}) \<or>
         ((\<exists>d. e = TimeoutFires d) \<and> app g' = fst (incScore (app g) (storage g)) \<and>
            (\<not> stale_correct_timeout g \<longrightarrow> screen (app g) = BOARD))"
proof (cases e)
  case IntervalFires
  obtain c fin where t: "clock_tick m (clock g) = (c, fin)" by fastforce
  have "ticking (clock g)" using st IntervalFires by (simp split: if_splits)
  then have "screen (app g) = BOARD" and "app g' = (if fin then changeScreen END (app g) else app g)"
    using inv st IntervalFires t by (auto simp: game_inv_def)
  then show ?thesis by auto
next
  case (TimeoutFires d)
  with st obtain gen p rest where tm: "timers g = (gen, p) # rest"
    and g': "g' = fire_timeout d gen p (g\<lparr>timers := rest\<rparr>)"
    by (auto split: list.splits if_splits)
  show ?thesis
  proof (cases "pending_correct p")
    case True
    have "\<not> stale_correct_timeout g \<longrightarrow> screen (app g) = BOARD"
      using True tm by (simp add: stale_correct_timeout_def board_live_def)
    moreover have "app g' = fst (incScore (app g) (storage g))"
      using True g' by (simp add: fire_timeout_fields)
    ultimately show ?thesis using TimeoutFires by blast
  next
    case False
    with g' show ?thesis by (simp add: fire_timeout_fields)
  qed
qed (use st in \<open>auto split: if_splits prod.splits\<close>)

lemma reachable_game_inv: "reachable m st g \<Longrightarrow> game_inv g"
proof (induction rule: reachable.induct)
  case (init m st)
  show ?case by (rule game_inv_init)
next
  case (step m st g e g')
  then show ?case by (blast intro: game_step_inv)
qed

lemmas game_eval_simps = game_init_def App_constructor_def loadHighScore_empty enter_board_def
  random_round_def randomPiecesColor_def randomCoordinates_def getRandomInt_def
  GameBoard_onClick_def click_cell_def fire_timeout_def board_live_def incScore_def Let_def
  changeScreen_def leave_board_def valid_draws_def valid_draw_def

lemma one_answer_run_eval:
  "game_run m one_answer_run (game_init Map.empty) =
     Some \<lparr>app = \<lparr>score = 1, highScore = JInt 1, isNewHighScore = True, screen = BOARD\<rparr>,
           storage = snd (incScore \<lparr>score = 0, highScore = JInt 0, isNewHighScore = False,
             screen = BOARD\<rparr> Map.empty),
           color = BLACK, target = \<lparr>coord_x = 7, coord_y = 7\<rparr>,
           clock = Clock_componentDidMount (Clock_constructor GAME_SECONDS),
           canvas = fillCell 0 0 (resting_colour 0 0)
             (GameBoard_componentDidMount \<lparr>coord_x = 0, coord_y = 0\<rparr> Map.empty),
           timers = [], generation = 1\<rparr>"
  by (simp add: game_eval_simps)

lemma one_answer_run_reachable:
  "reachable m Map.empty (the (game_run m one_answer_run (game_init Map.empty)))"
  by (rule game_run_from_init [of m one_answer_run]) (simp only: one_answer_run_eval option.sel)

lemma game_run_IntervalFires_done:
  assumes "game_inv g" and "screen (app g) = BOARD"
  shows "\<exists>k \<le> nat (seconds (clock g)) + 1. \<exists>g'.
           game_run m (replicate k IntervalFires) g = Some g' \<and> screen (app g') = END"
  using assms
proof (induction "nat (seconds (clock g))" arbitrary: g rule: less_induct)
  case less
  have tk: "ticking (clock g)" using less.prems by (simp add: game_inv_def)
  obtain c fin where t: "clock_tick m (clock g) = (c, fin)" by fastforce
  show ?case
  proof (cases fin)
    case True
    with tk t have "game_run m (replicate 1 IntervalFires) g = Some (leave_board (g\<lparr>clock := c\<rparr>))"
      by simp
    then show ?thesis by fastforce
  next
    case False
    let ?g1 = "g\<lparr>clock := c\<rparr>"
    have st: "game_step m IntervalFires g = Some ?g1" using tk t False by simp
    have inv1: "game_inv ?g1" using less.prems(1) st by (rule game_step_inv)
    have c: "seconds c = seconds (clock g) - 1" "0 \<le> seconds c"
      using clock_tick_not_done [of m "clock g" c] t False by simp_all
    then have lt: "nat (seconds (clock ?g1)) < nat (seconds (clock g))" by simp
    from less.hyps [OF lt inv1] less.prems(2) obtain k g' where
      "k \<le> nat (seconds (clock ?g1)) + 1" and "game_run m (replicate k IntervalFires) ?g1 = Some g'"
      and "screen (app g') = END" by auto
    with st lt show ?thesis
      by (intro exI [of _ "Suc k"]) auto
  qed
qed

lemma game_run_append:
  "game_run m (xs @ ys) g = (case game_run m xs g of None \<Rightarrow> None | Some g' \<Rightarrow> game_run m ys g')"
  by (induction xs arbitrary: g) (auto split: option.splits)

text \<open>
  The browser runs the waiting \<^verbatim>\<open>setTimeout\<close> callbacks one by one, oldest first; no
  callback schedules another, so the queue drains in as many steps as it holds callbacks.
\<close>

lemma game_run_timers_drain:
  assumes "valid_draws d"
  shows "\<exists>g'. game_run m (replicate (length (timers g)) (TimeoutFires d)) g = Some g' \<and>
           timers g' = [] \<and> screen (app g') = screen (app g)"
proof (induction "timers g" arbitrary: g)
  case Nil
  then show ?case by simp
next
  case (Cons a rest)
  obtain gen p where a: "a = (gen, p)" by fastforce
  let ?g1 = "fire_timeout d gen p (g\<lparr>timers := rest\<rparr>)"
  have st: "game_step m (TimeoutFires d) g = Some ?g1"
    using Cons.hyps(2) [symmetric] a assms by simp
  have "rest = timers ?g1" by (simp add: fire_timeout_fields)
  from Cons.hyps(1) [OF this] obtain g' where
    "game_run m (replicate (length (timers ?g1)) (TimeoutFires d)) ?g1 = Some g'"
    and "timers g' = []" and "screen (app g') = screen (app ?g1)" by blast
  with st Cons.hyps(2) [symmetric] show ?case by (simp add: fire_timeout_fields)
qed

lemma game_run_IntervalFires_timers:
  "game_run m (replicate k IntervalFires) g = Some g' \<Longrightarrow> timers g' = timers g"
proof (induction k arbitrary: g)
  case 0
  then show ?case by simp
next
  case (Suc k)
  then show ?case
    by (auto split: if_splits prod.splits option.splits)
qed

subsection \<open>The red-mark invariant\<close>

lemma marks_inv_init: "marks_inv (game_init st)"
  by (simp add: marks_inv_def game_init_def)

lemma marks_inv_frame:
  assumes "marks_inv g" and "canvas g' = canvas g" and "timers g' = timers g"
    and "generation g' = generation g" and "screen (app g') = BOARD \<Longrightarrow> screen (app g) = BOARD"
  shows "marks_inv g'"
  using assms unfolding marks_inv_def by metis

lemma game_step_marks_inv:
  assumes inv: "marks_inv g" and st: "game_step m e g = Some g'"
  shows "marks_inv g'"
proof (cases e)
  case (StartClick d)
  then have "g' = enter_board d g" using st by (simp split: if_splits)
  then show ?thesis using inv by (simp add: marks_inv_def GameBoard_mount_not_wrong)
next
  case (RetryClick d)
  then have "g' = enter_board d g" using st by (simp split: if_splits)
  then show ?thesis using inv by (simp add: marks_inv_def GameBoard_mount_not_wrong)
next
  case ExitClick
  then have "g' = g\<lparr>app := changeScreen MENU (app g)\<rparr>" using st by (simp split: if_splits)
  then show ?thesis by (intro marks_inv_frame [OF inv]) simp_all
next
  case QuitClick
  then have "g' = leave_board g" using st by (simp split: if_splits)
  then show ?thesis by (intro marks_inv_frame [OF inv]) (simp_all add: leave_board_def)
next
  case IntervalFires
  then show ?thesis using st
    by (intro marks_inv_frame [OF inv]) (auto simp: leave_board_def split: if_splits prod.splits)
next
  case (BoardClick px py)
  obtain cv p where oc: "GameBoard_onClick (target g) px py (canvas g) = (cv, p)" by fastforce
  have g': "g' = g\<lparr>canvas := cv, timers := timers g @ [(generation g, p)]\<rparr>"
    and b: "screen (app g) = BOARD" using st BoardClick oc by (simp_all split: if_splits)
  have "pending_resting p" by (rule GameBoard_onClick_marks(1) [OF oc])
  moreover have "0 \<le> x \<and> x < 8 \<and> 0 \<le> y \<and> y < 8 \<and>
      (\<exists>col. (generation g, Revert x y col) \<in> set (timers g @ [(generation g, p)]))"
    if "cv (x, y) = Some SQ_WRONG" for x y
    using GameBoard_onClick_marks(2) [OF oc that]
  proof
    assume "canvas g (x, y) = Some SQ_WRONG"
    with inv b obtain col where "0 \<le> x \<and> x < 8 \<and> 0 \<le> y \<and> y < 8"
      and "(generation g, Revert x y col) \<in> set (timers g)"
      unfolding marks_inv_def by blast
    then show ?thesis by auto
  qed auto
  ultimately show ?thesis using inv unfolding g' marks_inv_def by auto
next
  case (TimeoutFires d)
  obtain gen p rest where q: "timers g = (gen, p) # rest"
    and g': "g' = fire_timeout d gen p (g\<lparr>timers := rest\<rparr>)"
    using st TimeoutFires by (auto split: list.splits if_splits)
  have pr: "pending_resting p" and prest: "\<forall>e \<in> set rest. pending_resting (snd e)"
    using inv q by (auto simp: marks_inv_def)
  have flds: "timers g' = rest" "generation g' = generation g" "screen (app g') = screen (app g)"
    by (simp_all add: g' fire_timeout_fields)
  have "0 \<le> x \<and> x < 8 \<and> 0 \<le> y \<and> y < 8 \<and>
      (screen (app g) = BOARD \<longrightarrow> (\<exists>col. (generation g, Revert x y col) \<in> set rest))"
    if w: "canvas g' (x, y) = Some SQ_WRONG" for x y
  proof -
    let ?live = "gen = generation g \<and> screen (app g) = BOARD"
    have cv: "canvas g' (x, y) =
        (if ?live then pending_repaint p (canvas g) (x, y) else canvas g (x, y))"
      by (simp add: g' fire_timeout_fields board_live_def)
    have "canvas g (x, y) = Some SQ_WRONG"
      using w cv pending_repaint_marks(1) [OF pr] by (auto split: if_splits)
    then have ob: "0 \<le> x \<and> x < 8 \<and> 0 \<le> y \<and> y < 8"
      and pend: "screen (app g) = BOARD \<Longrightarrow> \<exists>col. (generation g, Revert x y col) \<in> set ((gen, p) # rest)"
      using inv q by (auto simp: marks_inv_def)
    have "\<exists>col. (generation g, Revert x y col) \<in> set rest" if b: "screen (app g) = BOARD"
    proof -
      from pend [OF b] obtain col where c: "(generation g, Revert x y col) \<in> set ((gen, p) # rest)"
        by blast
      show ?thesis
      proof (cases "(gen, p) = (generation g, Revert x y col)")
        case True
        then have p: "p = Revert x y col" and "?live" using b by simp_all
        then have "pending_repaint p (canvas g) (x, y) = Some SQ_WRONG" using w cv by simp
        from pending_repaint_marks(2) [OF pr this p] ob show ?thesis by simp
      next
        case False
        with c show ?thesis by auto
      qed
    qed
    with ob show ?thesis by simp
  qed
  then show ?thesis using prest unfolding marks_inv_def flds by blast
qed

lemma reachable_marks_inv: "reachable m st g \<Longrightarrow> marks_inv g"
proof (induction rule: reachable.induct)
  case (init m st)
  show ?case by (rule marks_inv_init)
next
  case (step m st g e g')
  then show ?case by (blast intro: game_step_marks_inv)
qed

end
