(* ===== verification/Views.thy ===== *)
theory Views
  imports Game
begin

text \<open>
  What the program shows: the \<^verbatim>\<open>render\<close> functions of \<^verbatim>\<open>src/src/App.js\<close> as pure
  functions from component state to a \<open>view\<close>, the displayed texts and the buttons.
  \<^item> \<open>button\<close>: \<^verbatim>\<open>StartButton\<close> and \<^verbatim>\<open>ExitButton\<close> (lines 284--298), with the
    text they carry and the screen their \<^verbatim>\<open>onClick\<close> passes to \<^verbatim>\<open>changeScreen\<close>;
    pressing one is the event of \<open>Game.event\<close> of that name.
  \<^item> \<open>MainMenuScreen\<close> (lines 94--106), \<open>GameOverScreen\<close> (lines 250--282),
    \<open>GameScreen_render\<close> (\<^verbatim>\<open>GameScreen.render\<close>, lines 125--177, with the canvas of
    \<^verbatim>\<open>GameBoard.render\<close>, lines 234--247, and the text of \<^verbatim>\<open>Clock.render\<close>) and
    \<open>App_render\<close> (\<^verbatim>\<open>App.render\<close>, lines 337--370), which chooses the screen.
  A JS number is rendered by \<open>js_num_to_string\<close>: an integer in decimal, \<open>NaN\<close> as the
  text \<^verbatim>\<open>NaN\<close>. Styles other than the colour of the target's name are not modelled.
\<close>

datatype button = StartButton string screen | ExitButton string screen

datatype view =
    MainMenuView "button list" string
  | GameView "button list" string square_colour string string string canvas
  | GameOverView "button list" bool string

definition js_num_to_string :: "jsnum \<Rightarrow> string" where
  "js_num_to_string v = (case v of JInt n \<Rightarrow> js_int_to_string n | NaN \<Rightarrow> ''NaN'')"

text \<open>The menu: the title, \<^verbatim>\<open>START\<close> and the high score.\<close>

definition MainMenuScreen :: "jsnum \<Rightarrow> view" where
  "MainMenuScreen hs = MainMenuView [StartButton ''START'' BOARD] (js_num_to_string hs)"

text \<open>
  The game screen: the side's name, the target's name in the side's colour
  (\<^verbatim>\<open>color === SIDE.WHITE ? SQUARE.WHITE : SQUARE.BLACK\<close>), the score, the board's
  canvas, the clock and \<^verbatim>\<open>QUIT\<close>.
\<close>

definition GameScreen_render :: "side \<Rightarrow> coordinates \<Rightarrow> int \<Rightarrow> canvas \<Rightarrow> clock_state \<Rightarrow> view" where
  "GameScreen_render sd t sc cv c =
     (let square = toChessBoardSquare t (side_name sd);
          colour = (if side_name sd = side_name WHITE then SQ_WHITE else SQ_BLACK)
      in GameView [ExitButton ''QUIT'' END] (side_name sd) colour square
           (js_int_to_string sc) (clock_render c) cv)"

text \<open>The end screen: the banner when \<^verbatim>\<open>isNewHighScore\<close>, the score, \<^verbatim>\<open>RETRY\<close> and \<^verbatim>\<open>EXIT\<close>.\<close>

definition GameOverScreen :: "int \<Rightarrow> bool \<Rightarrow> view" where
  "GameOverScreen sc isNew =
     GameOverView [StartButton ''RETRY'' BOARD, ExitButton ''EXIT'' MENU] isNew (js_int_to_string sc)"

definition App_render :: "game_state \<Rightarrow> view" where
  "App_render g =
     (case screen (app g) of
        BOARD \<Rightarrow> GameScreen_render (color g) (target g) (score (app g)) (canvas g) (clock g)
      | END \<Rightarrow> GameOverScreen (score (app g)) (isNewHighScore (app g))
      | MENU \<Rightarrow> MainMenuScreen (highScore (app g)))"

subsection \<open>Reading the views\<close>

lemma App_render_GameView:
  assumes "App_render g = GameView bs s col sq sc clk cv"
  shows "screen (app g) = BOARD" and "clk = clock_render (clock g)"
    and "sc = js_int_to_string (score (app g))"
  using assms by (auto simp: App_render_def GameScreen_render_def GameOverScreen_def
      MainMenuScreen_def Let_def split: screen.splits)

lemma App_render_GameOverView:
  assumes "App_render g = GameOverView bs b sc"
  shows "screen (app g) = END" and "b = isNewHighScore (app g)"
    and "sc = js_int_to_string (score (app g))"
  using assms by (auto simp: App_render_def GameScreen_render_def GameOverScreen_def
      MainMenuScreen_def Let_def split: screen.splits)

lemma js_rem_small: "0 \<le> s \<Longrightarrow> s < 60 \<Longrightarrow> js_rem s 60 = s"
  by (cases "s = 0") (simp_all add: js_rem_def sgn_if)

lemma clock_render_in_game:
  assumes "0 \<le> seconds c" and "seconds c \<le> 60"
  shows "clock_render c = ''1:0'' \<or>
         (\<exists>s. 0 \<le> s \<and> s < 60 \<and> clock_render c = ''0:'' @ js_int_to_string s)"
proof (cases "seconds c = 60")
  case True
  then show ?thesis
    by (simp add: clock_render_def js_rem_def js_int_to_string_def nat_digits.simps digit_char_def)
next
  case False
  with assms have lt: "seconds c < 60" by simp
  then have "seconds c div 60 = 0" using assms(1) by simp
  then have "clock_render c = ''0:'' @ js_int_to_string (seconds c)"
    using js_rem_small [OF assms(1) lt]
    by (simp add: clock_render_def js_int_to_string_def nat_digits.simps digit_char_def)
  with assms(1) lt show ?thesis by blast
qed

lemma menu_shows_NaN_high_score:
  "App_render (game_init [''highScore'' \<mapsto> ''abc'']) = MainMenuView [StartButton ''START'' BOARD] ''NaN''"
  by (simp add: App_render_def game_init_def App_constructor_def MainMenuScreen_def js_num_to_string_def
      loadHighScore_def js_or_zero_def parseInt_def is_js_ws_def digit_value_def)

subsection \<open>Properties of what is shown\<close>

text \<open>
  C32: in every reachable state, when the end screen shows the banner
  \<^verbatim>\<open>New High Score!\<close>, the score it shows is the high score held in memory.
\<close>

theorem new_high_score_banner:
  assumes "reachable m st g" and "App_render g = GameOverView bs True sc"
  shows "highScore (app g) = JInt (score (app g)) \<and> sc = js_int_to_string (score (app g))"
proof -
  have inv: "app_inv (app g)" using reachable_game_inv [OF assms(1)] by (simp add: game_inv_def)
  have "isNewHighScore (app g)" using App_render_GameOverView(2) [OF assms(2)] by simp
  with inv have "highScore (app g) = JInt (score (app g))"
    by (auto simp: app_inv_def split: jsnum.splits)
  then show ?thesis using App_render_GameOverView(3) [OF assms(2)] by simp
qed

lemma new_high_score_banner_witness:
  "reachable SyncSetState Map.empty
     (leave_board (the (game_run SyncSetState one_answer_run (game_init Map.empty)))) \<and>
   App_render (leave_board (the (game_run SyncSetState one_answer_run (game_init Map.empty)))) =
     GameOverView [StartButton ''RETRY'' BOARD, ExitButton ''EXIT'' MENU] True ''1'' \<and>
   highScore (app (leave_board (the (game_run SyncSetState one_answer_run (game_init Map.empty))))) = JInt 1 \<and>
   ''1'' = js_int_to_string 1"
proof -
  let ?G = "the (game_run SyncSetState one_answer_run (game_init Map.empty))"
  have r: "reachable SyncSetState Map.empty ?G" by (rule one_answer_run_reachable)
  have "game_step SyncSetState QuitClick ?G = Some (leave_board ?G)"
    unfolding one_answer_run_eval option.sel by simp
  with r have r': "reachable SyncSetState Map.empty (leave_board ?G)" by (rule reachable.step)
  have v: "App_render (leave_board ?G) = GameOverView [StartButton ''RETRY'' BOARD, ExitButton ''EXIT'' MENU] True ''1''"
    unfolding one_answer_run_eval option.sel
    by (simp add: App_render_def GameOverScreen_def changeScreen_def leave_board_def js_int_to_string_def nat_digits.simps digit_char_def)
  have "score (app (leave_board ?G)) = 1" unfolding one_answer_run_eval option.sel by (simp add: changeScreen_def)
  with new_high_score_banner [OF r' v] r' v show ?thesis by simp
qed

text \<open>
  C33: in every reachable state, the clock on the game screen reads \<^verbatim>\<open>1:0\<close> or
  \<^verbatim>\<open>0:s\<close> with \<open>0 \<le> s < 60\<close>: it never shows a negative time, not even under
  batched \<^verbatim>\<open>setState\<close>, where the seconds fall to \<open>-1\<close> as the board is left.
\<close>

theorem board_clock_display:
  assumes "reachable m st g" and "App_render g = GameView bs sd col sq sc clk cv"
  shows "clk = ''1:0'' \<or> (\<exists>s. 0 \<le> s \<and> s < 60 \<and> clk = ''0:'' @ js_int_to_string s)"
proof -
  have "ticking (clock g) \<and> 0 \<le> seconds (clock g) \<and> seconds (clock g) \<le> 60"
    using reachable_game_inv [OF assms(1)] App_render_GameView(1) [OF assms(2)]
    by (simp add: game_inv_def GAME_SECONDS_def)
  then show ?thesis
    using clock_render_in_game [of "clock g"] App_render_GameView(2) [OF assms(2)] by simp
qed

lemma board_clock_display_witness:
  "reachable SyncSetState Map.empty (the (game_run SyncSetState one_answer_run (game_init Map.empty))) \<and>
   App_render (the (game_run SyncSetState one_answer_run (game_init Map.empty))) =
     GameView [ExitButton ''QUIT'' END] ''BLACK'' SQ_BLACK ''A8'' ''1'' ''1:0''
       (canvas (the (game_run SyncSetState one_answer_run (game_init Map.empty)))) \<and>
   (''1:0'' = ''1:0'' \<or> (\<exists>s. 0 \<le> s \<and> s < 60 \<and> ''1:0'' = ''0:'' @ js_int_to_string s))"
proof -
  let ?G = "the (game_run SyncSetState one_answer_run (game_init Map.empty))"
  have r: "reachable SyncSetState Map.empty ?G" by (rule one_answer_run_reachable)
  have v: "App_render ?G = GameView [ExitButton ''QUIT'' END] ''BLACK'' SQ_BLACK ''A8'' ''1'' ''1:0'' (canvas ?G)"
    unfolding one_answer_run_eval option.sel
    by (simp add: App_render_def GameScreen_render_def Let_def toChessBoardSquare_def
        js_letter_def file_chars_def clock_render_def js_rem_def js_int_to_string_def
        nat_digits.simps digit_char_def Clock_componentDidMount_def Clock_constructor_def
        GAME_SECONDS_def side_name_def)
  show ?thesis using board_clock_display [OF r v] r v by simp
qed

end
