(* ===== verification/Game_Properties.thy ===== *)
theory Game_Properties
  imports Game
begin

text \<open>
  The properties of the running program of \<open>Game\<close>: what holds in every reachable state
  (the persisted high score, the screen navigation, the score bounds, the clock, the
  canvas), that every game ends and the program comes to rest, and the behaviours the
  specification rules out, shown on concrete runs.
\<close>

subsection \<open>Properties of the running program\<close>

text \<open>
  C6: in every reachable state the high score in storage, read back as the constructor
  reads it, is the high score in memory: every new high score is persisted at once.
\<close>

theorem reachable_high_score_persisted:
  assumes "reachable m st g"
  shows "loadHighScore (storage g) = highScore (app g)"
  using assms
proof (induction rule: reachable.induct)
  case (init m st)
  show ?case by (simp add: game_init_def App_constructor_def)
next
  case (step m st g e g')
  show ?case
  proof (cases e)
    case (TimeoutFires d)
    with step.hyps(2) obtain gen p rest where
      g': "g' = fire_timeout d gen p (g\<lparr>timers := rest\<rparr>)"
      by (auto split: list.splits if_splits)
    show ?thesis
    proof (cases "pending_correct p")
      case True
      with g' step.IH show ?thesis
        by (auto simp: fire_timeout_fields incScore_def Let_def loadHighScore_saveHighScore_aux)
    next
      case False
      with g' step.IH show ?thesis by (simp add: fire_timeout_fields)
    qed
  next
    case IntervalFires
    with step show ?thesis by (auto split: if_splits prod.splits)
  qed (use step in \<open>auto split: if_splits prod.splits\<close>)
qed

lemma reachable_high_score_persisted_witness:
  "reachable SyncSetState Map.empty (the (game_run SyncSetState one_answer_run (game_init Map.empty))) \<and>
   loadHighScore (storage (the (game_run SyncSetState one_answer_run (game_init Map.empty)))) = JInt 1"
proof -
  have h: "reachable SyncSetState Map.empty (the (game_run SyncSetState one_answer_run (game_init Map.empty)))"
    by (rule one_answer_run_reachable)
  show ?thesis using h reachable_high_score_persisted [OF h] one_answer_run_eval
    by (simp add: incScore_def Let_def)
qed

text \<open>
  C11: the screens change only along the navigation of the specification: menu to board,
  board to end (quit or time out), end to board (retry) and end to menu (exit).
\<close>

theorem reachable_screen_transitions:
  assumes "reachable m st g" and "game_step m e g = Some g'"
  shows "screen (app g') = screen (app g) \<or>
         (screen (app g), screen (app g')) \<in> {(MENU, BOARD), (BOARD, END), (END, BOARD), (END, MENU)}"
  using game_step_app [OF reachable_game_inv [OF assms(1)] assms(2)] by auto

lemma reachable_screen_transitions_witness:
  "reachable SyncSetState Map.empty (the (game_run SyncSetState one_answer_run (game_init Map.empty))) \<and>
   game_step SyncSetState QuitClick (the (game_run SyncSetState one_answer_run (game_init Map.empty))) =
     Some (leave_board (the (game_run SyncSetState one_answer_run (game_init Map.empty)))) \<and>
   (screen (app (leave_board (the (game_run SyncSetState one_answer_run (game_init Map.empty))))) =
      screen (app (the (game_run SyncSetState one_answer_run (game_init Map.empty)))) \<or>
    (screen (app (the (game_run SyncSetState one_answer_run (game_init Map.empty)))),
     screen (app (leave_board (the (game_run SyncSetState one_answer_run (game_init Map.empty))))))
      \<in> {(MENU, BOARD), (BOARD, END), (END, BOARD), (END, MENU)})"
proof -
  have h1: "reachable SyncSetState Map.empty (the (game_run SyncSetState one_answer_run (game_init Map.empty)))"
    by (rule one_answer_run_reachable)
  have h2: "game_step SyncSetState QuitClick (the (game_run SyncSetState one_answer_run (game_init Map.empty))) =
     Some (leave_board (the (game_run SyncSetState one_answer_run (game_init Map.empty))))"
    using one_answer_run_eval [of SyncSetState] by simp
  show ?thesis using h1 h2 reachable_screen_transitions [OF h1 h2] by blast
qed

text \<open>
  C17: in every reachable state the score is between \<open>0\<close> and the high score (or
  \<open>0\<close> while a negative stored high score stands), and the new-high-score flag is set
  only when the score is the high score.
\<close>

theorem reachable_score_bounds:
  assumes "reachable m st g" and "highScore (app g) = JInt h"
  shows "0 \<le> score (app g) \<and> score (app g) \<le> max h 0 \<and>
         (isNewHighScore (app g) \<longrightarrow> score (app g) = h)"
  using reachable_game_inv [OF assms(1)] assms(2) by (simp add: game_inv_def app_inv_def)

lemma reachable_score_bounds_witness:
  "(reachable SyncSetState Map.empty (the (game_run SyncSetState one_answer_run (game_init Map.empty))) \<and>
    highScore (app (the (game_run SyncSetState one_answer_run (game_init Map.empty)))) = JInt 1) \<and>
   0 \<le> score (app (the (game_run SyncSetState one_answer_run (game_init Map.empty)))) \<and>
   score (app (the (game_run SyncSetState one_answer_run (game_init Map.empty)))) \<le> max 1 0 \<and>
   score (app (the (game_run SyncSetState one_answer_run (game_init Map.empty)))) = 1"
proof -
  have h1: "reachable SyncSetState Map.empty (the (game_run SyncSetState one_answer_run (game_init Map.empty)))"
    by (rule one_answer_run_reachable)
  have h2: "highScore (app (the (game_run SyncSetState one_answer_run (game_init Map.empty)))) = JInt 1"
    using one_answer_run_eval [of SyncSetState] by simp
  have new: "isNewHighScore (app (the (game_run SyncSetState one_answer_run (game_init Map.empty))))"
    using one_answer_run_eval [of SyncSetState] by simp
  show ?thesis using h1 h2 new reachable_score_bounds [OF h1 h2] by blast
qed

text \<open>
  C18: no event lowers a numeric high score: it stays a number and never decreases.
\<close>

theorem game_step_high_score_mono:
  assumes "game_step m e g = Some g'" and "highScore (app g) = JInt h"
  shows "\<exists>h'. highScore (app g') = JInt h' \<and> h \<le> h'"
proof (cases e)
  case IntervalFires
  with assms show ?thesis by (auto split: if_splits prod.splits)
next
  case (TimeoutFires d)
  with assms show ?thesis
    by (auto simp: fire_timeout_fields incScore_highScore_mono split: list.splits if_splits)
qed (use assms in \<open>auto split: if_splits prod.splits\<close>)

lemma game_step_high_score_mono_witness:
  "(game_step SyncSetState (TimeoutFires (0.9, 0.9, 0.9))
      (the (game_run SyncSetState [StartClick (0.1, 0.1, 0.1), BoardClick 40 40] (game_init Map.empty))) =
    game_run SyncSetState one_answer_run (game_init Map.empty) \<and>
    highScore (app (the (game_run SyncSetState [StartClick (0.1, 0.1, 0.1), BoardClick 40 40]
      (game_init Map.empty)))) = JInt 0) \<and>
   (\<exists>h'. highScore (app (the (game_run SyncSetState one_answer_run (game_init Map.empty)))) = JInt h' \<and> 0 \<le> h')"
proof -
  have h1: "game_step SyncSetState (TimeoutFires (0.9, 0.9, 0.9))
      (the (game_run SyncSetState [StartClick (0.1, 0.1, 0.1), BoardClick 40 40] (game_init Map.empty))) =
    Some (the (game_run SyncSetState one_answer_run (game_init Map.empty)))"
    by (simp add: game_eval_simps)
  have h2: "highScore (app (the (game_run SyncSetState [StartClick (0.1, 0.1, 0.1), BoardClick 40 40]
      (game_init Map.empty)))) = JInt 0"
    by (simp add: game_eval_simps)
  show ?thesis using h1 h2 game_step_high_score_mono [OF h1 h2] one_answer_run_eval by simp
qed

text \<open>
  C16: in every reachable state the clock's interval is registered exactly while the board
  is shown, and while it is, the clock reads between \<open>0\<close> and \<^verbatim>\<open>GAME_SECONDS\<close>:
  no interval outlives its game, and no game runs without one.
\<close>

theorem reachable_clock_iff_board:
  assumes "reachable m st g"
  shows "(ticking (clock g) \<longleftrightarrow> screen (app g) = BOARD) \<and>
         (ticking (clock g) \<longrightarrow> 0 \<le> seconds (clock g) \<and> seconds (clock g) \<le> GAME_SECONDS)"
  using reachable_game_inv [OF assms] by (simp add: game_inv_def)

lemma reachable_clock_iff_board_witness:
  "reachable BatchedSetState Map.empty (the (game_run BatchedSetState one_answer_run (game_init Map.empty))) \<and>
   ticking (clock (the (game_run BatchedSetState one_answer_run (game_init Map.empty)))) \<and>
   seconds (clock (the (game_run BatchedSetState one_answer_run (game_init Map.empty)))) \<le> GAME_SECONDS"
proof -
  have h: "reachable BatchedSetState Map.empty (the (game_run BatchedSetState one_answer_run (game_init Map.empty)))"
    by (rule one_answer_run_reachable)
  have "screen (app (the (game_run BatchedSetState one_answer_run (game_init Map.empty)))) = BOARD"
    using one_answer_run_eval [of BatchedSetState] by simp
  then show ?thesis using h reachable_clock_iff_board [OF h] by simp
qed

text \<open>
  C12: every game ends: from any reachable state showing the board, at most 61 firings of
  the clock's interval reach the end screen, in either React mode, whatever clicks and
  timeouts came before.
\<close>

theorem reachable_game_ends:
  assumes "reachable m st g" and "screen (app g) = BOARD"
  shows "\<exists>k \<le> 61. \<exists>g'. game_run m (replicate k IntervalFires) g = Some g' \<and> screen (app g') = END"
proof -
  have inv: "game_inv g" using assms(1) by (rule reachable_game_inv)
  then have "nat (seconds (clock g)) + 1 \<le> 61"
    using assms(2) by (auto simp: game_inv_def GAME_SECONDS_def)
  with game_run_IntervalFires_done [OF inv assms(2), of m] show ?thesis
    by (meson order_trans)
qed

lemma reachable_game_ends_witness:
  "(reachable SyncSetState Map.empty (the (game_run SyncSetState one_answer_run (game_init Map.empty))) \<and>
    screen (app (the (game_run SyncSetState one_answer_run (game_init Map.empty)))) = BOARD) \<and>
   (\<exists>k \<le> 61. \<exists>g'. game_run SyncSetState (replicate k IntervalFires)
      (the (game_run SyncSetState one_answer_run (game_init Map.empty))) = Some g' \<and> screen (app g') = END)"
proof -
  have h1: "reachable SyncSetState Map.empty (the (game_run SyncSetState one_answer_run (game_init Map.empty)))"
    by (rule one_answer_run_reachable)
  have h2: "screen (app (the (game_run SyncSetState one_answer_run (game_init Map.empty)))) = BOARD"
    using one_answer_run_eval [of SyncSetState] by simp
  show ?thesis using h1 h2 reachable_game_ends [OF h1 h2] by blast
qed

subsection \<open>Behaviours the specification rules out\<close>

text \<open>
  C7: a correct-click callback outlives its game. From any state on the board with no
  callback waiting, the player clicks the target, quits and retries before the 200 ms
  delay ends; the callback then runs against the new session and scores a point in it,
  before any click of that session and without changing its target. The specification
  (sections 5 and 7) requires such stale callbacks to be discarded.
\<close>

theorem stale_callback_scores_in_next_session:
  assumes "screen (app g) = BOARD" and "timers g = []" and "click_cell px py = target g"
    and "valid_draws d1" and "valid_draws d2"
  shows "\<exists>g'. game_run m [BoardClick px py, QuitClick, RetryClick d1, TimeoutFires d2] g = Some g' \<and>
           screen (app g') = BOARD \<and> generation g' = Suc (generation g) \<and> score (app g') = 1 \<and>
           target g' = snd (random_round d1) \<and> timers g' = []"
  using assms
  by (simp add: GameBoard_onClick_hit fire_timeout_fields board_live_def incScore_def Let_def
      changeScreen_def)

lemma stale_callback_scores_in_next_session_witness:
  "(screen (app (one_answer_state SyncSetState)) = BOARD \<and> timers (one_answer_state SyncSetState) = [] \<and>
    click_cell 600 600 = target (one_answer_state SyncSetState) \<and>
    valid_draws (0.9, 0.9, 0.9) \<and> valid_draws (0.5, 0.5, 0.5)) \<and>
   (\<exists>g'. game_run SyncSetState [BoardClick 600 600, QuitClick, RetryClick (0.9, 0.9, 0.9),
           TimeoutFires (0.5, 0.5, 0.5)] (one_answer_state SyncSetState) = Some g' \<and>
      screen (app g') = BOARD \<and> generation g' = Suc (generation (one_answer_state SyncSetState)) \<and>
      score (app g') = 1 \<and> target g' = snd (random_round (0.9, 0.9, 0.9)) \<and> timers g' = [])"
proof -
  have h: "screen (app (one_answer_state SyncSetState)) = BOARD"
    "timers (one_answer_state SyncSetState) = []"
    "click_cell 600 600 = target (one_answer_state SyncSetState)"
    unfolding one_answer_run_eval option.sel by (simp_all add: click_cell_def)
  have v: "valid_draws (0.9, 0.9, 0.9)" "valid_draws (0.5, 0.5, 0.5)"
    by (simp_all add: valid_draws_def valid_draw_def)
  show ?thesis using h v stale_callback_scores_in_next_session [OF h v] by blast
qed

text \<open>
  C8: one target can score twice. From any state on the board with no callback waiting,
  two clicks on the target within 200 ms schedule two correct-click callbacks before the
  first replaces the target; both run against the live board, so the score goes up by two
  for a single target.
\<close>

theorem double_click_scores_twice:
  assumes "screen (app g) = BOARD" and "timers g = []" and "click_cell px py = target g"
    and "valid_draws d1" and "valid_draws d2"
  shows "\<exists>g'. game_run m [BoardClick px py, BoardClick px py, TimeoutFires d1, TimeoutFires d2] g
             = Some g' \<and>
           score (app g') = score (app g) + 2 \<and> screen (app g') = BOARD \<and> timers g' = []"
  using assms
  by (simp add: GameBoard_onClick_hit fire_timeout_fields board_live_def incScore_def Let_def)

lemma double_click_scores_twice_witness:
  "(screen (app (one_answer_state SyncSetState)) = BOARD \<and> timers (one_answer_state SyncSetState) = [] \<and>
    click_cell 600 600 = target (one_answer_state SyncSetState) \<and>
    valid_draws (0.9, 0.9, 0.9) \<and> valid_draws (0.5, 0.5, 0.5)) \<and>
   (\<exists>g'. game_run SyncSetState [BoardClick 600 600, BoardClick 600 600, TimeoutFires (0.9, 0.9, 0.9),
           TimeoutFires (0.5, 0.5, 0.5)] (one_answer_state SyncSetState) = Some g' \<and>
      score (app g') = score (app (one_answer_state SyncSetState)) + 2 \<and>
      screen (app g') = BOARD \<and> timers g' = [])"
proof -
  have h: "screen (app (one_answer_state SyncSetState)) = BOARD"
    "timers (one_answer_state SyncSetState) = []"
    "click_cell 600 600 = target (one_answer_state SyncSetState)"
    unfolding one_answer_run_eval option.sel by (simp_all add: click_cell_def)
  have v: "valid_draws (0.9, 0.9, 0.9)" "valid_draws (0.5, 0.5, 0.5)"
    by (simp_all add: valid_draws_def valid_draw_def)
  show ?thesis using h v double_click_scores_twice [OF h v] by blast
qed

text \<open>
  C22: after a correct answer the new target is not shown on the board. From any reachable
  state on the board with no callback waiting, a correct click and its callback leave the
  new target's cell with the colour it had before (or, if the same cell is drawn again,
  its resting colour): no highlight is ever painted for a target drawn by
  \<^verbatim>\<open>GameScreen.correct\<close>, only the first target of a board is painted \<^verbatim>\<open>OK\<close> at mount.
\<close>

theorem new_target_not_highlighted:
  assumes "reachable m st g" and "screen (app g) = BOARD" and "timers g = []"
    and "click_cell px py = target g" and "valid_draws d"
  shows "\<exists>g'. game_run m [BoardClick px py, TimeoutFires d] g = Some g' \<and>
           target g' = snd (random_round d) \<and>
           canvas g' (coord_x (target g'), coord_y (target g')) =
             (if target g' = target g
              then Some (resting_colour (coord_x (target g)) (coord_y (target g)))
              else canvas g (coord_x (target g'), coord_y (target g')))"
proof -
  have "on_board (target g)" using reachable_game_inv [OF assms(1)] by (simp add: game_inv_def)
  then show ?thesis using assms(2-5)
    by (auto simp: GameBoard_onClick_hit fire_timeout_fields board_live_def fillCell_apply
        on_board_def coordinates_eqI)
qed

lemma new_target_not_highlighted_witness:
  "(reachable SyncSetState Map.empty (one_answer_state SyncSetState) \<and>
    screen (app (one_answer_state SyncSetState)) = BOARD \<and> timers (one_answer_state SyncSetState) = [] \<and>
    click_cell 600 600 = target (one_answer_state SyncSetState) \<and> valid_draws (0.5, 0.5, 0.5)) \<and>
   (\<exists>g'. game_run SyncSetState [BoardClick 600 600, TimeoutFires (0.5, 0.5, 0.5)]
           (one_answer_state SyncSetState) = Some g' \<and>
      target g' = snd (random_round (0.5, 0.5, 0.5)) \<and>
      canvas g' (coord_x (target g'), coord_y (target g')) =
        (if target g' = target (one_answer_state SyncSetState)
         then Some (resting_colour (coord_x (target (one_answer_state SyncSetState)))
                     (coord_y (target (one_answer_state SyncSetState))))
         else canvas (one_answer_state SyncSetState) (coord_x (target g'), coord_y (target g'))))"
proof -
  have r: "reachable SyncSetState Map.empty (one_answer_state SyncSetState)"
    by (rule one_answer_run_reachable)
  have h: "screen (app (one_answer_state SyncSetState)) = BOARD"
    "timers (one_answer_state SyncSetState) = []"
    "click_cell 600 600 = target (one_answer_state SyncSetState)"
    unfolding one_answer_run_eval option.sel by (simp_all add: click_cell_def)
  have v: "valid_draws (0.5, 0.5, 0.5)" by (simp add: valid_draws_def valid_draw_def)
  show ?thesis using r h v new_target_not_highlighted [OF r h v] by blast
qed

text \<open>
  C24: a red mark never stays without its repair. In every reachable state on the board,
  a cell painted \<^verbatim>\<open>WRONG\<close> has the \<^verbatim>\<open>setTimeout\<close> callback that repaints it still
  waiting, scheduled by the board that is shown; by C31 that callback runs.
\<close>

theorem reachable_wrong_mark_pending:
  assumes "reachable m st g" and "screen (app g) = BOARD" and "canvas g (x, y) = Some SQ_WRONG"
  shows "\<exists>col. (generation g, Revert x y col) \<in> set (timers g)"
  using reachable_marks_inv [OF assms(1)] assms(2,3) unfolding marks_inv_def by blast

lemma reachable_wrong_mark_pending_witness:
  "(reachable SyncSetState Map.empty (the (game_run SyncSetState wrong_click_run (game_init Map.empty))) \<and>
    screen (app (the (game_run SyncSetState wrong_click_run (game_init Map.empty)))) = BOARD \<and>
    canvas (the (game_run SyncSetState wrong_click_run (game_init Map.empty))) (1, 0) = Some SQ_WRONG) \<and>
   (\<exists>col. (generation (the (game_run SyncSetState wrong_click_run (game_init Map.empty))), Revert 1 0 col)
      \<in> set (timers (the (game_run SyncSetState wrong_click_run (game_init Map.empty)))))"
proof -
  have run: "game_run SyncSetState wrong_click_run (game_init Map.empty) =
      Some (the (game_run SyncSetState wrong_click_run (game_init Map.empty)))"
    by (simp add: game_eval_simps)
  have r: "reachable SyncSetState Map.empty (the (game_run SyncSetState wrong_click_run (game_init Map.empty)))"
    using run by (rule game_run_from_init)
  have b: "screen (app (the (game_run SyncSetState wrong_click_run (game_init Map.empty)))) = BOARD"
    by (simp add: game_eval_simps)
  have c: "canvas (the (game_run SyncSetState wrong_click_run (game_init Map.empty))) (1, 0) = Some SQ_WRONG"
    by (simp add: game_eval_simps fillCell_apply)
  show ?thesis using r b c reachable_wrong_mark_pending [OF r b c] by blast
qed

text \<open>
  C31: without user input the program comes to rest: from every reachable state, the
  waiting \<^verbatim>\<open>setTimeout\<close> callbacks run, then at most 61 interval ticks follow, and
  then no callback waits, no interval is registered and the board is no longer shown.
\<close>

theorem reachable_quiesces:
  assumes "reachable m st g" and "valid_draws d"
  shows "\<exists>k \<le> 61. \<exists>g'.
           game_run m (replicate (length (timers g)) (TimeoutFires d) @ replicate k IntervalFires) g
             = Some g' \<and>
           timers g' = [] \<and> \<not> ticking (clock g') \<and> screen (app g') \<noteq> BOARD"
proof -
  obtain g1 where run1: "game_run m (replicate (length (timers g)) (TimeoutFires d)) g = Some g1"
    and t1: "timers g1 = []"
    using game_run_timers_drain [OF assms(2), of m g] by blast
  have r1: "reachable m st g1" using assms(1) run1 by (rule game_run_reachable)
  have inv1: "game_inv g1" using r1 by (rule reachable_game_inv)
  show ?thesis
  proof (cases "screen (app g1) = BOARD")
    case True
    have "nat (seconds (clock g1)) + 1 \<le> 61"
      using inv1 True by (auto simp: game_inv_def GAME_SECONDS_def)
    moreover obtain k g' where "k \<le> nat (seconds (clock g1)) + 1"
      and run2: "game_run m (replicate k IntervalFires) g1 = Some g'" and e: "screen (app g') = END"
      using game_run_IntervalFires_done [OF inv1 True, of m] by blast
    moreover have "\<not> ticking (clock g')"
      using reachable_game_inv [OF game_run_reachable [OF r1 run2]] e by (simp add: game_inv_def)
    moreover have "timers g' = []" using game_run_IntervalFires_timers [OF run2] t1 by simp
    ultimately show ?thesis using run1 e
      by (intro exI [of _ k]) (simp add: game_run_append)
  next
    case False
    then have "\<not> ticking (clock g1)" using inv1 by (simp add: game_inv_def)
    with False run1 t1 show ?thesis by (intro exI [of _ 0]) (simp add: game_run_append)
  qed
qed

lemma reachable_quiesces_witness:
  "reachable SyncSetState Map.empty (the (game_run SyncSetState one_answer_run (game_init Map.empty))) \<and>
   valid_draws (1 / 10, 1 / 10, 1 / 10) \<and>
   (\<exists>k \<le> 61. \<exists>g'. game_run SyncSetState
        (replicate (length (timers (the (game_run SyncSetState one_answer_run (game_init Map.empty)))))
           (TimeoutFires (1 / 10, 1 / 10, 1 / 10)) @ replicate k IntervalFires)
        (the (game_run SyncSetState one_answer_run (game_init Map.empty))) = Some g' \<and>
      timers g' = [] \<and> \<not> ticking (clock g') \<and> screen (app g') \<noteq> BOARD)"
proof -
  have r: "reachable SyncSetState Map.empty (the (game_run SyncSetState one_answer_run (game_init Map.empty)))"
    by (rule one_answer_run_reachable)
  have v: "valid_draws (1 / 10, 1 / 10, 1 / 10)" by (simp add: valid_draws_def valid_draw_def)
  show ?thesis using r v reachable_quiesces [OF r v] by blast
qed

end
