(* ===== verification/Spec2Isabelle.thy ===== *)
theory Spec2Isabelle
  imports Views Game_Properties
begin

text \<open>
  \<^bold>\<open>A verification development of Chess Board Master\<close> (\<^verbatim>\<open>src/src/App.js\<close>, a React
  single-page game: a square is named from White's or Black's side and the player has
  sixty seconds to click as many named squares as possible on a canvas chessboard; the
  best score is kept in \<^verbatim>\<open>localStorage\<close>).

  \<^bold>\<open>The program.\<close> \<^verbatim>\<open>App\<close> holds the score, the high score, the new-high-score flag
  and the screen (\<^verbatim>\<open>MENU\<close>, \<^verbatim>\<open>BOARD\<close>, \<^verbatim>\<open>END\<close>). On \<^verbatim>\<open>BOARD\<close> it renders a
  \<^verbatim>\<open>GameScreen\<close>, which draws a side and a target cell at random and renders the
  target's name, a \<^verbatim>\<open>GameBoard\<close> (a canvas that judges clicks and calls back
  \<^verbatim>\<open>onCorrect\<close> 200 ms later) and a \<^verbatim>\<open>Clock\<close> (a one-second interval that calls
  \<^verbatim>\<open>onDone\<close> when the time is up). \<^verbatim>\<open>onCorrect\<close> calls \<^verbatim>\<open>App.incScore\<close>, which
  also writes a new high score to storage, and draws the next round; \<^verbatim>\<open>onDone\<close> and
  the quit button call \<^verbatim>\<open>App.changeScreen(END)\<close>, which unmounts the screen.

  \<^bold>\<open>Theories, in import order.\<close>
  \<^item> \<open>Prelude\<close>: JS numbers with \<open>NaN\<close> (\<open>jsnum\<close>, \<open>js_gt\<close>), the truncating
    \<^verbatim>\<open>%\<close> (\<open>js_rem\<close>), decimal rendering of integers (\<open>js_int_to_string\<close>), the
    collection \<open>js_simps\<close> and the digit lemmas the components share.
  \<^item> \<open>Coordinates\<close>: \<^verbatim>\<open>SIDE\<close> (\<open>side\<close>, \<open>side_name\<close>), \<^verbatim>\<open>class Coordinates\<close>
    (record \<open>coordinates\<close>) and \<^verbatim>\<open>toChessBoardSquare\<close> with every branch
    (lines 4--7, 75--92); \<open>parse_square\<close> is the reading of a label, from the spec.
  \<^item> \<open>Targets\<close>: \<^verbatim>\<open>getRandomInt\<close>, \<^verbatim>\<open>randomPiecesColor\<close>,
    \<^verbatim>\<open>randomCoordinates\<close> (lines 24--36) and the draw order of a round
    (\<open>random_round\<close>, lines 112--113); each \<^verbatim>\<open>Math.random()\<close> result is an explicit
    real draw in \<open>[0, 1)\<close>. The product \<^verbatim>\<open>Math.random() * (max - min + 1)\<close> is taken
    exactly: this is faithful to IEEE doubles when the range has a power of two elements
    (multiplying by \<open>2^k\<close> is exact), which holds for the program's only call,
    \<^verbatim>\<open>getRandomInt(0, 7)\<close>; for other ranges rounding can move a draw across a slot
    boundary, so only the bounds (C26) are claimed for general ranges.
  \<^item> \<open>Clock\<close>: \<^verbatim>\<open>class Clock\<close> (lines 38--73) as a record and a step per interval
    tick, parameterised by \<open>react_mode\<close>: the callback reads \<^verbatim>\<open>this.state\<close> right
    after \<^verbatim>\<open>setState\<close>, which sees the new value before React 18 and the old one
    from React 18 on; the repository does not pin the version, so both are proved.
  \<^item> \<open>Storage\<close>: \<^verbatim>\<open>localStorage\<close> as a string map, \<^verbatim>\<open>parseInt\<close> after the
    ECMAScript algorithm (ASCII white space only), the \<^verbatim>\<open>|| 0\<close> default
    (\<open>loadHighScore\<close>, line 305) and the write of \<^verbatim>\<open>incScore\<close> (\<open>saveHighScore\<close>,
    line 327).
  \<^item> \<open>Board\<close>: \<^verbatim>\<open>SQUARE\<close> and \<^verbatim>\<open>class GameBoard\<close> (lines 9--14, 180--248): the
    canvas as a map from cells to the colour last filled there, the mount loops
    \<open>draw_rows\<close>/\<open>draw_cols\<close> (functions with a measure, as the \<^verbatim>\<open>for\<close> loops count to
    8), \<open>GameBoard_onClick\<close> and the callback it schedules (\<open>pending\<close>).
  \<^item> \<open>Session\<close>: \<^verbatim>\<open>GameScreens\<close> and \<^verbatim>\<open>class App\<close> (lines 16--20, 300--335):
    \<open>App_constructor\<close>, \<open>changeScreen\<close>, \<open>incScore\<close> with storage threaded through, and
    the invariant \<open>app_inv\<close> kept by each of them.
  \<^item> \<open>Game\<close>: the component tree of \<^verbatim>\<open>App.render\<close> and \<^verbatim>\<open>GameScreen\<close>
    (lines 108--178, 337--370) as one state machine: \<open>game_state\<close> (every mounted
    component's state, storage, the queue of waiting \<^verbatim>\<open>setTimeout\<close> callbacks tagged
    with the generation of the board that scheduled them), \<open>event\<close> (button presses,
    interval ticks, canvas clicks, timeouts, each with the random draws it causes),
    \<open>game_step\<close>, \<open>game_run\<close> over event lists and the inductive \<open>reachable\<close>.
    Interleavings are free: any event that can happen may come next, which includes every
    timing the browser can produce. The invariants \<open>game_inv\<close> (session, clock and
    target) and \<open>marks_inv\<close> (every red mark on the shown board awaits its repaint)
    hold in every reachable state, and \<open>game_step_app\<close> classifies what a step does to \<^verbatim>\<open>App\<close>.
  \<^item> \<open>Game_Properties\<close>: the properties of the running program built on them,
    including the behaviours the specification rules out, each stated for every state
    in which it can happen.
  \<^item> \<open>Views\<close>: what the program shows: \<^verbatim>\<open>App.render\<close>, \<^verbatim>\<open>GameScreen.render\<close>,
    \<^verbatim>\<open>MainMenuScreen\<close>, \<^verbatim>\<open>GameOverScreen\<close> and the buttons (lines 94--106,
    125--177, 250--298, 337--370) as functions from \<open>game_state\<close> to a \<open>view\<close> of the
    displayed texts, the colour of the target's name, the canvas and the buttons.
  \<^item> \<open>Spec2Isabelle\<close> (this theory): the session controller of the specification as an
    inductive step relation \<open>spec_step\<close> on \<open>spec_session\<close>, the abstraction
    \<open>abs_session\<close>, and the properties that span components.

  \<^bold>\<open>What is proved\<close> (claim ids in order of importance).
  \<^item> Resolver and naming: the verdict is coordinate equality (C1); labels from either
    side (C4, C5), Black as White rotated (C25), labels read back to their cell (C15),
    the default branch (C30); the label on screen always names the judged target (C3).
  \<^item> Session: every run without stale callbacks is a run of the specified session
    controller, by a step-wise simulation under \<open>abs_session\<close> (C2); the persisted
    high score always equals the one in memory (C6);
    screens change only along the specified navigation (C11); score bounds and the flag
    (C17), monotone high score (C18), \<open>k\<close> answers in a session (C13), a \<open>NaN\<close>
    high score sticks (C29).
  \<^item> Clock and liveness: done at the 60th tick with synchronous \<^verbatim>\<open>setState\<close> (C9), at
    the 61st when batched (C10), at most one \<^verbatim>\<open>onDone\<close> (C19), none after unmount
    (C20), interval registered exactly on the board (C16), every game ends within 61
    ticks (C12), and without user input the program comes to rest: the timer queue
    drains and the clock stops within 61 ticks (C31).
  \<^item> Randomness: bounds of \<^verbatim>\<open>getRandomInt\<close> (C26), uniformity of a whole round over
    its 128 outcomes (C14).
  \<^item> Board and storage: every red mark on the shown board has its repaint waiting (C24);
    the mount colours agree with \<^verbatim>\<open>onClick\<close>'s parity test (C21), clicks in the canvas
    hit board cells (C27), highlights are transient (C28); load after save (C23).
  \<^item> Behaviours the specification rules out, each from every state where it can occur: a
    correct-click callback scores in the next session after quit and retry (C7), a double
    click scores twice for one target (C8), and a target drawn after a correct answer is
    never highlighted on the board (C22).
  \<^item> Display: the \<^verbatim>\<open>New High Score!\<close> banner shows the high score (C32), and the
    clock on the game screen never shows a negative time (C33).

  \<^bold>\<open>Bounds and termination.\<close> No fuel is used: \<open>game_run\<close> and \<open>clock_run\<close> recurse on
  the event list; the drawing loops terminate by the measure \<open>8 - j\<close>; that a game
  ends is the liveness theorem C12, proved from the clock invariant (the clock reads at
  most \<^verbatim>\<open>GAME_SECONDS\<close> = 60 while it runs, and each tick lowers it by one); that
  the program comes to rest (C31) adds that the timer queue drains in as many steps as it
  holds callbacks, since no callback schedules another.

  \<^bold>\<open>Not modelled.\<close> The JSX layout and CSS styles of the screens (font sizes, flex
  boxes, element ids), other than the colour of the target's name: they hold no state
  and decide nothing; the hexadecimal values of the colours drawn, beyond their identity; the
  \<^verbatim>\<open>console.log\<close> of line 184; React's development-mode double invocation of state
  updaters; wall-clock time (the model allows every interleaving, which is a superset of
  the timed behaviours); white space outside ASCII in \<^verbatim>\<open>parseInt\<close>; a canvas scaled by
  CSS (offsets are taken as canvas pixels); the exponent notation \<^verbatim>\<open>toString\<close> uses
  from \<open>10^21\<close> on (\<open>js_int_to_string\<close> writes plain decimal; a score grows by one
  per correct answer and never comes near it); double rounding in \<^verbatim>\<open>getRandomInt\<close>
  for ranges other than the program's (see \<open>Targets\<close> above).
\<close>

section \<open>The session controller against its specification\<close>

text \<open>
  The session controller of the specification (sections 4.5 and 4.6): the screen, the
  score, the high score and the new-high-score flag, with one rule per operation.
\<close>

record spec_session =
  sp_screen :: screen
  sp_score :: int
  sp_high :: int
  sp_new :: bool

inductive spec_step :: "spec_session \<Rightarrow> spec_session \<Rightarrow> bool" where
  begin_session: "sp_screen s \<in> {MENU, END} \<Longrightarrow>
     spec_step s (s\<lparr>sp_screen := BOARD, sp_score := 0, sp_new := False\<rparr>)"
| correct_click_new: "sp_screen s = BOARD \<Longrightarrow> sp_high s < sp_score s + 1 \<Longrightarrow>
     spec_step s (s\<lparr>sp_score := sp_score s + 1, sp_high := sp_score s + 1, sp_new := True\<rparr>)"
| correct_click: "sp_screen s = BOARD \<Longrightarrow> sp_score s + 1 \<le> sp_high s \<Longrightarrow>
     spec_step s (s\<lparr>sp_score := sp_score s + 1\<rparr>)"
| timer_done_or_quit: "sp_screen s = BOARD \<Longrightarrow> spec_step s (s\<lparr>sp_screen := END\<rparr>)"
| exit_to_menu: "sp_screen s = END \<Longrightarrow> spec_step s (s\<lparr>sp_screen := MENU, sp_new := False\<rparr>)"

text \<open>The view of the program's \<^verbatim>\<open>App\<close> state as a specified session (a numeric high score).\<close>

definition abs_session :: "app_state \<Rightarrow> spec_session option" where
  "abs_session a =
     (case highScore a of
        JInt h \<Rightarrow> Some \<lparr>sp_screen = screen a, sp_score = score a, sp_high = h,
                        sp_new = isNewHighScore a\<rparr>
      | NaN \<Rightarrow> None)"

text \<open>
  A run of events in which no correct-click callback runs after its board is gone.
\<close>

fun run_no_stale :: "react_mode \<Rightarrow> event list \<Rightarrow> game_state \<Rightarrow> bool" where
  "run_no_stale m [] g = True"
| "run_no_stale m (e # es) g =
     (\<not> ((case e of TimeoutFires _ \<Rightarrow> True | _ \<Rightarrow> False) \<and> stale_correct_timeout g) \<and>
      (case game_step m e g of None \<Rightarrow> True | Some g' \<Rightarrow> run_no_stale m es g'))"

lemma abs_session_incScore:
  assumes "abs_session a = Some s" and "app_inv a" and "screen a = BOARD"
  shows "\<exists>s'. abs_session (fst (incScore a st)) = Some s' \<and> spec_step s s'"
proof -
  obtain h where h: "highScore a = JInt h"
    and s: "s = \<lparr>sp_screen = screen a, sp_score = score a, sp_high = h, sp_new = isNewHighScore a\<rparr>"
    using assms(1) by (auto simp: abs_session_def split: jsnum.splits)
  show ?thesis
  proof (cases "h < score a + 1")
    case True
    then have "spec_step s (s\<lparr>sp_score := sp_score s + 1, sp_high := sp_score s + 1, sp_new := True\<rparr>)"
      using assms(3) s by (intro spec_step.correct_click_new) simp_all
    with True h s show ?thesis by (auto simp: abs_session_def incScore_def Let_def)
  next
    case False
    then have "\<not> isNewHighScore a" using assms(2) h by (auto simp: app_inv_def)
    moreover have "spec_step s (s\<lparr>sp_score := sp_score s + 1\<rparr>)"
      using assms(3) s False by (intro spec_step.correct_click) simp_all
    ultimately show ?thesis using False h s by (auto simp: abs_session_def incScore_def Let_def)
  qed
qed

text \<open>
  One step: every event of the running program either leaves the specified session
  unchanged or is one step of the specification's session controller, except a
  correct-click callback that runs after its board is gone.
\<close>

lemma game_step_refines_session_spec:
  assumes "reachable m st g" and "game_step m e g = Some g'" and "abs_session (app g) = Some s"
    and "\<not> ((\<exists>d. e = TimeoutFires d) \<and> stale_correct_timeout g)"
  shows "\<exists>s'. abs_session (app g') = Some s' \<and> (spec_step s s' \<or> s' = s)"
proof -
  have inv: "game_inv g" using assms(1) by (rule reachable_game_inv)
  have scr: "sp_screen s = screen (app g)"
    using assms(3) by (auto simp: abs_session_def split: jsnum.splits)
  have abs_changeScreen: "\<And>scr. abs_session (changeScreen scr (app g)) =
     Some (s\<lparr>sp_screen := scr, sp_score := (if scr = BOARD then 0 else sp_score s),
             sp_new := (scr = END \<and> sp_new s)\<rparr>)"
    using assms(3) by (auto simp: abs_session_def changeScreen_def split: jsnum.splits)
  from game_step_app [OF inv assms(2)] assms(4) consider
      (same) "app g' = app g"
    | (nav) scr where "app g' = changeScreen scr (app g)"
        "(screen (app g), scr) \<in> {(MENU, BOARD), (BOARD, END), (END, BOARD), (END, MENU)}"
    | (inc) "app g' = fst (incScore (app g) (storage g))" "screen (app g) = BOARD"
    by blast
  then show ?thesis
  proof cases
    case same
    with assms(3) show ?thesis by simp
  next
    case nav
    with scr show ?thesis by (auto simp: abs_changeScreen intro: spec_step.intros)
  next
    case inc
    moreover have "app_inv (app g)" using inv by (simp add: game_inv_def)
    ultimately show ?thesis using assms(3) abs_session_incScore by metis
  qed
qed

text \<open>
  C2: refinement. Every run of the program from a reachable state with a numeric high
  score, in which no correct-click callback runs after its board is gone, is a run of
  the specification's session controller: the specified session it ends in is reached
  from the one it started in by steps of \<open>spec_step\<close>. (C7 shows that a stale callback
  does change the session.)
\<close>

theorem game_refines_session_spec:
  assumes "reachable m st g" and "game_run m es g = Some g'" and "abs_session (app g) = Some s"
    and "run_no_stale m es g"
  shows "\<exists>s'. abs_session (app g') = Some s' \<and> spec_step\<^sup>*\<^sup>* s s'"
  using assms
proof (induction es arbitrary: g s)
  case Nil
  then show ?case by simp
next
  case (Cons e es)
  from Cons.prems(2) obtain g1 where st: "game_step m e g = Some g1"
    and run: "game_run m es g1 = Some g'" by (auto split: option.splits)
  have ns: "\<not> ((\<exists>d. e = TimeoutFires d) \<and> stale_correct_timeout g)"
    using Cons.prems(4) by (auto split: event.splits)
  obtain s1 where a1: "abs_session (app g1) = Some s1" and sp: "spec_step s s1 \<or> s1 = s"
    using game_step_refines_session_spec [OF Cons.prems(1) st Cons.prems(3) ns] by blast
  have r1: "reachable m st g1" using Cons.prems(1) st by (rule reachable.step)
  have "run_no_stale m es g1" using Cons.prems(4) st by simp
  from Cons.IH [OF r1 run a1 this] obtain s' where "abs_session (app g') = Some s'"
    and "spec_step\<^sup>*\<^sup>* s1 s'" by blast
  with sp show ?case by (auto intro: converse_rtranclp_into_rtranclp)
qed

lemma game_refines_session_spec_witness:
  "(reachable SyncSetState Map.empty (game_init Map.empty) \<and>
    game_run SyncSetState one_answer_run (game_init Map.empty) =
      Some (the (game_run SyncSetState one_answer_run (game_init Map.empty))) \<and>
    abs_session (app (game_init Map.empty)) =
      Some \<lparr>sp_screen = MENU, sp_score = 0, sp_high = 0, sp_new = False\<rparr> \<and>
    run_no_stale SyncSetState one_answer_run (game_init Map.empty)) \<and>
   (\<exists>s'. abs_session (app (the (game_run SyncSetState one_answer_run (game_init Map.empty)))) = Some s' \<and>
      spec_step\<^sup>*\<^sup>* \<lparr>sp_screen = MENU, sp_score = 0, sp_high = 0, sp_new = False\<rparr> s')"
proof -
  have h1: "reachable SyncSetState Map.empty (game_init Map.empty)" by (rule reachable.init)
  have h2: "game_run SyncSetState one_answer_run (game_init Map.empty) =
      Some (the (game_run SyncSetState one_answer_run (game_init Map.empty)))"
    unfolding one_answer_run_eval by simp
  have h3: "abs_session (app (game_init Map.empty)) =
      Some \<lparr>sp_screen = MENU, sp_score = 0, sp_high = 0, sp_new = False\<rparr>"
    by (simp add: abs_session_def game_init_def App_constructor_def loadHighScore_empty)
  have h4: "run_no_stale SyncSetState one_answer_run (game_init Map.empty)"
    by (simp add: game_eval_simps stale_correct_timeout_def)
  show ?thesis using h1 h2 h3 h4 game_refines_session_spec [OF h1 h2 h3 h4] by blast
qed

section \<open>The label on screen and the cell that is judged\<close>

text \<open>
  C3: in every reachable state, the square name \<^verbatim>\<open>GameScreen\<close> displays, read from the
  round's perspective, is exactly the target cell that \<^verbatim>\<open>GameBoard.onClick\<close> compares
  clicks with: the generator, the transform and the resolver agree.
\<close>

theorem displayed_square_names_target:
  assumes "reachable m st g"
  shows "parse_square (color g) (GameScreen_square g) = Some (target g)"
proof -
  have "on_board (target g)" using reachable_game_inv [OF assms] by (simp add: game_inv_def)
  then show ?thesis by (simp add: GameScreen_square_def parse_label_on_board)
qed

lemma displayed_square_names_target_witness:
  "reachable SyncSetState Map.empty (the (game_run SyncSetState one_answer_run (game_init Map.empty))) \<and>
   parse_square (color (the (game_run SyncSetState one_answer_run (game_init Map.empty))))
     (GameScreen_square (the (game_run SyncSetState one_answer_run (game_init Map.empty)))) =
   Some \<lparr>coord_x = 7, coord_y = 7\<rparr>"
proof -
  have h: "reachable SyncSetState Map.empty (the (game_run SyncSetState one_answer_run (game_init Map.empty)))"
    by (rule one_answer_run_reachable)
  show ?thesis using h displayed_square_names_target [OF h] one_answer_run_eval by simp
qed

end
